theory Spec2Isabelle
  imports Main
begin

section \<open>Python values and the builtins the engine calls\<close>

text \<open>
  The engine works on parsed JSON: the portal document and every extracted document are
  Python dicts from strings to arbitrary JSON values. A JSON object is an association
  list, read with \<open>map_of\<close> (the first binding of a key is the dict's entry). A character
  of a \<open>string\<close> stands for one code point of the Python \<open>str\<close>, in the range 0..255.
  Floating-point numbers are values of an unspecified type: what Python does with them
  (\<open>repr\<close>, truth value, \<open>int\<close>) is a parameter of the model.
\<close>

typedecl pyfloat

datatype json =
    JNull
  | JBool bool
  | JInt int
  | JFloat pyfloat
  | JStr string
  | JList "json list"
  | JObj "(string \<times> json) list"

type_synonym pydict = "(string \<times> json) list"

text \<open>
  Instances of Python's \<open>Exception\<close> that the engine or a builtin it calls can raise;
  \<open>exc_str\<close> is \<open>str(exc)\<close>. A function of the source that can raise returns
  \<open>py_exception + 'a\<close>, with \<open>Inl\<close> for the exception.
\<close>

datatype py_exception =
    AssertionError
  | ValueError string
  | AttributeError string
  | TypeError string
  | ReError string
  | OtherError string

fun exc_str :: "py_exception \<Rightarrow> string" where
  "exc_str AssertionError = []"
| "exc_str (ValueError m) = m"
| "exc_str (AttributeError m) = m"
| "exc_str (TypeError m) = m"
| "exc_str (ReError m) = m"
| "exc_str (OtherError m) = m"

text \<open>
  The builtins that are not modelled: \<open>re.match(pattern, s)\<close> (whether there is a match,
  or the exception raised for a pattern that does not compile), \<open>repr\<close> of a \<open>str\<close> and
  of a float, the truth value of a float, and \<open>int(x)\<close> for an argument that is neither
  an \<open>int\<close> nor a \<open>bool\<close>. Every theorem holds for all values of these parameters.
\<close>

record py_builtins =
  re_match :: "string \<Rightarrow> string \<Rightarrow> py_exception + bool"
  repr_str :: "string \<Rightarrow> string"
  repr_float :: "pyfloat \<Rightarrow> string"
  float_truthy :: "pyfloat \<Rightarrow> bool"
  int_conv :: "json \<Rightarrow> py_exception + int"

subsection \<open>Strings\<close>

definition digit_char :: "nat \<Rightarrow> char" where
  "digit_char n = ''0123456789'' ! n"

fun show_nat :: "nat \<Rightarrow> string" where
  "show_nat n = (if n < 10 then [digit_char n] else show_nat (n div 10) @ [digit_char (n mod 10)])"

declare show_nat.simps [simp del]

definition show_int :: "int \<Rightarrow> string" where
  "show_int i = (if i < 0 then CHR ''-'' # show_nat (nat (- i)) else show_nat (nat i))"

definition show_bool :: "bool \<Rightarrow> string" where
  "show_bool b = (if b then ''True'' else ''False'')"

text \<open>\<open>sep.join(xs)\<close>.\<close>

fun py_join :: "string \<Rightarrow> string list \<Rightarrow> string" where
  "py_join sep [] = []"
| "py_join sep [x] = x"
| "py_join sep (x # y # ys) = x @ sep @ py_join sep (y # ys)"

text \<open>\<open>s.startswith(p)\<close>.\<close>

definition startswith :: "string \<Rightarrow> string \<Rightarrow> bool" where
  "startswith s p = (take (length p) s = p)"

text \<open>
  \<open>str.isspace\<close> on one character: the code points up to 255 that Python counts as
  whitespace are 9..13, 28..32, 133 and 160.
\<close>

definition py_isspace :: "char \<Rightarrow> bool" where
  "py_isspace c = (let n = (of_char c :: nat)
                   in (9 \<le> n \<and> n \<le> 13) \<or> (28 \<le> n \<and> n \<le> 32) \<or> n = 133 \<or> n = 160)"

text \<open>\<open>s.strip()\<close>: whitespace removed at both ends.\<close>

definition py_strip :: "string \<Rightarrow> string" where
  "py_strip s = rev (dropWhile py_isspace (rev (dropWhile py_isspace s)))"

text \<open>
  \<open>s.split(sep, 1)\<close> for a non-empty separator: the text before and after the first
  occurrence of \<open>sep\<close>, or the whole string alone when \<open>sep\<close> does not occur.
\<close>

fun find_sep :: "string \<Rightarrow> string \<Rightarrow> (string \<times> string) option" where
  "find_sep sep [] = None"
| "find_sep sep (c # cs) =
     (if startswith (c # cs) sep then Some ([], drop (length sep) (c # cs))
      else (case find_sep sep cs of
              None \<Rightarrow> None
            | Some (a, b) \<Rightarrow> Some (c # a, b)))"

definition split1 :: "string \<Rightarrow> string \<Rightarrow> string list" where
  "split1 s sep = (case find_sep sep s of None \<Rightarrow> [s] | Some (a, b) \<Rightarrow> [a, b])"

subsection \<open>Values\<close>

text \<open>\<open>repr(v)\<close>; \<open>str(v)\<close> is the same except on a \<open>str\<close>, which is its own \<open>str\<close>.\<close>

fun py_repr :: "py_builtins \<Rightarrow> json \<Rightarrow> string" where
  "py_repr B JNull = ''None''"
| "py_repr B (JBool b) = show_bool b"
| "py_repr B (JInt i) = show_int i"
| "py_repr B (JFloat f) = repr_float B f"
| "py_repr B (JStr s) = repr_str B s"
| "py_repr B (JList xs) = ''['' @ py_join '', '' (map (py_repr B) xs) @ '']''"
| "py_repr B (JObj kvs) =
     ''{'' @ py_join '', '' (map (\<lambda>kv. repr_str B (fst kv) @ '': '' @ py_repr B (snd kv)) kvs) @ ''}''"

definition py_str :: "py_builtins \<Rightarrow> json \<Rightarrow> string" where
  "py_str B v = (case v of JStr s \<Rightarrow> s | _ \<Rightarrow> py_repr B v)"

text \<open>\<open>str(xs)\<close> of a list of strings, as an f-string prints \<open>allowed_values\<close>.\<close>

definition str_list :: "py_builtins \<Rightarrow> string list \<Rightarrow> string" where
  "str_list B xs = ''['' @ py_join '', '' (map (repr_str B) xs) @ '']''"

text \<open>\<open>bool(v)\<close>.\<close>

fun py_truthy :: "py_builtins \<Rightarrow> json \<Rightarrow> bool" where
  "py_truthy B JNull = False"
| "py_truthy B (JBool b) = b"
| "py_truthy B (JInt i) = (i \<noteq> 0)"
| "py_truthy B (JFloat f) = float_truthy B f"
| "py_truthy B (JStr s) = (s \<noteq> [])"
| "py_truthy B (JList xs) = (xs \<noteq> [])"
| "py_truthy B (JObj kvs) = (kvs \<noteq> [])"

text \<open>\<open>v is None\<close>, and \<open>v == ""\<close>, which holds of the empty \<open>str\<close> alone.\<close>

fun is_none :: "json \<Rightarrow> bool" where
  "is_none JNull = True"
| "is_none _ = False"

fun is_empty_str :: "json \<Rightarrow> bool" where
  "is_empty_str (JStr s) = (s = [])"
| "is_empty_str _ = False"

text \<open>\<open>a or b\<close> on values.\<close>

definition py_or :: "py_builtins \<Rightarrow> json \<Rightarrow> json \<Rightarrow> json" where
  "py_or B a b = (if py_truthy B a then a else b)"

text \<open>\<open>int(v)\<close>.\<close>

definition py_int :: "py_builtins \<Rightarrow> json \<Rightarrow> py_exception + int" where
  "py_int B v = (case v of
      JInt i \<Rightarrow> Inr i
    | JBool b \<Rightarrow> Inr (if b then 1 else 0)
    | _ \<Rightarrow> int_conv B v)"

text \<open>\<open>d.get(k)\<close> on a dict: \<open>None\<close> for a missing key.\<close>

definition dict_get :: "pydict \<Rightarrow> string \<Rightarrow> json" where
  "dict_get d k = (case map_of d k of None \<Rightarrow> JNull | Some v \<Rightarrow> v)"

fun type_name :: "json \<Rightarrow> string" where
  "type_name JNull = ''NoneType''"
| "type_name (JBool b) = ''bool''"
| "type_name (JInt i) = ''int''"
| "type_name (JFloat f) = ''float''"
| "type_name (JStr s) = ''str''"
| "type_name (JList xs) = ''list''"
| "type_name (JObj kvs) = ''dict''"

text \<open>
  \<open>v.get(k)\<close> on an arbitrary value: only a dict has the method, any other value raises
  \<open>AttributeError\<close>.
\<close>

definition attr_get :: "json \<Rightarrow> string \<Rightarrow> py_exception + json" where
  "attr_get v k = (case v of
      JObj kvs \<Rightarrow> Inr (dict_get kvs k)
    | _ \<Rightarrow> Inl (AttributeError
             (CHR 0x27 # type_name v @ CHR 0x27 # '' object has no attribute '' @ CHR 0x27 # ''get'' @ [CHR 0x27])))"

text \<open>The truth value of an \<open>Optional[str]\<close>, \<open>Optional[int]\<close> and \<open>Optional[List]\<close>.\<close>

definition opt_str_truthy :: "string option \<Rightarrow> bool" where
  "opt_str_truthy s = (case s of None \<Rightarrow> False | Some x \<Rightarrow> x \<noteq> [])"

definition opt_list_truthy :: "'a list option \<Rightarrow> bool" where
  "opt_list_truthy s = (case s of None \<Rightarrow> False | Some x \<Rightarrow> x \<noteq> [])"

text \<open>\<open>x or d\<close> for an \<open>Optional[int]\<close>: \<open>None\<close> and \<open>0\<close> both give \<open>d\<close>.\<close>

definition opt_int_or :: "int option \<Rightarrow> int \<Rightarrow> int" where
  "opt_int_or x d = (case x of None \<Rightarrow> d | Some n \<Rightarrow> if n \<noteq> 0 then n else d)"

section \<open>The data model (schemas/validation_schemas.py)\<close>

text \<open>
  The pydantic models as records. Several models have fields of the same name, so every
  field carries its model's initials: \<open>fe\<close> FlagExpectation, \<open>fr\<close> FieldRef, \<open>pf\<close>
  PortalFieldValidation, \<open>cr\<close> CrossSourceRule, \<open>rr\<close> RuleResult. \<open>source\<close>,
  \<open>rule_type\<close> and \<open>severity\<close> are kept as strings, so that the branches the engine has
  for a value outside the schema stay in the model. A \<open>Dict[str, ...]\<close> of the
  configuration is the list of its items in insertion order.
\<close>

datatype rule_status = PASS | FAIL | WARNING | SKIP

record flag_expectation =
  fe_field :: string
  fe_expected :: bool

record field_ref =
  fr_source :: string
  fr_field :: string
  fr_doc_type :: "string option"

record portal_field_validation =
  pf_type :: string
  pf_required :: bool
  pf_pattern :: "string option"
  pf_allowed_values :: "string list option"
  pf_min_length :: "int option"
  pf_max_length :: "int option"
  pf_description :: "string option"

record cross_source_rule =
  cr_id :: string
  cr_description :: string
  cr_severity :: string
  cr_rule_type :: string
  cr_left :: "field_ref option"
  cr_right :: "field_ref option"
  cr_target :: "field_ref option"
  cr_allowed_values :: "string list option"
  cr_regex :: "string option"
  cr_year_delta :: "int option"
  cr_min_pages :: "int option"
  cr_max_pages :: "int option"
  cr_flags :: "flag_expectation list option"

record validation_config =
  portal_field_validations :: "(string \<times> portal_field_validation) list"
  cross_source_rules :: "cross_source_rule list"

record rule_result =
  rr_rule_id :: string
  rr_description :: string
  rr_status :: rule_status
  rr_severity :: string
  rr_message :: string
  rr_context :: "(string \<times> string) list"

record validation_report =
  summary_status :: rule_status
  results :: "rule_result list"

section \<open>The engine (core/validation_engine.py)\<close>

subsection \<open>Aggregation\<close>

text \<open>Python's \<open>any(p(r) for r in rs)\<close>: the first element that satisfies \<open>p\<close> ends the scan.\<close>

fun py_any :: "('a \<Rightarrow> bool) \<Rightarrow> 'a list \<Rightarrow> bool" where
  "py_any p [] = False"
| "py_any p (r # rs) = (if p r then True else py_any p rs)"

definition aggregate_status :: "rule_result list \<Rightarrow> rule_status" where
  "aggregate_status rs =
     (let has_fail = py_any (\<lambda>r. rr_status r = FAIL) rs;
          has_warning = py_any (\<lambda>r. rr_status r = WARNING) rs
      in if has_fail then FAIL else if has_warning then WARNING else PASS)"

subsection \<open>Portal single-field validation\<close>

text \<open>
  \<open>_validate_portal_field\<close>. The result is \<open>Inr None\<close> when the function returns \<open>None\<close>,
  \<open>Inr (Some r)\<close> when it returns a result, and \<open>Inl e\<close> when \<open>re.match\<close> raises: the
  function has no handler of its own.
\<close>

definition validate_portal_field ::
  "py_builtins \<Rightarrow> string \<Rightarrow> portal_field_validation \<Rightarrow> pydict \<Rightarrow> py_exception + rule_result option"
where
  "validate_portal_field B field_name cfg portal_json =
    (let raw_value = dict_get portal_json field_name in
     if is_none raw_value \<or> is_empty_str raw_value then
       (if pf_required cfg then
          Inr (Some \<lparr> rr_rule_id = ''PORTAL_FIELD_REQUIRED::'' @ field_name,
                      rr_description = field_name @ '' is required'',
                      rr_status = FAIL,
                      rr_severity = ''error'',
                      rr_message = ''Field '' @ CHR 0x27 # field_name @ CHR 0x27 # '' is missing or empty.'',
                      rr_context = [] \<rparr>)
        else Inr None)
     else
       let value_str = py_str B raw_value in
       case (case pf_pattern cfg of
               None \<Rightarrow> Inr True
             | Some p \<Rightarrow> if p = [] then Inr True else re_match B p value_str) of
         Inl exc \<Rightarrow> Inl exc
       | Inr matched \<Rightarrow>
           if \<not> matched then
             Inr (Some \<lparr> rr_rule_id = ''PORTAL_FIELD_PATTERN::'' @ field_name,
                         rr_description = field_name @ '' must match pattern'',
                         rr_status = FAIL,
                         rr_severity = ''error'',
                         rr_message = ''Field '' @ CHR 0x27 # field_name @ CHR 0x27 #
                                      '' has invalid format: '' @ repr_str B value_str,
                         rr_context = [] \<rparr>)
           else if (case pf_allowed_values cfg of
                      None \<Rightarrow> False
                    | Some allowed \<Rightarrow> allowed \<noteq> [] \<and> value_str \<notin> set allowed) then
             Inr (Some \<lparr> rr_rule_id = ''PORTAL_FIELD_IN_SET::'' @ field_name,
                         rr_description = field_name @ '' must be one of allowed values'',
                         rr_status = FAIL,
                         rr_severity = ''error'',
                         rr_message = ''Field '' @ CHR 0x27 # field_name @ CHR 0x27 # '' has value '' @
                                      repr_str B value_str @ '' not in '' @
                                      str_list B (case pf_allowed_values cfg of None \<Rightarrow> [] | Some a \<Rightarrow> a),
                         rr_context = [] \<rparr>)
           else if (case pf_min_length cfg of
                      None \<Rightarrow> False
                    | Some n \<Rightarrow> int (length value_str) < n) then
             Inr (Some \<lparr> rr_rule_id = ''PORTAL_FIELD_MIN_LEN::'' @ field_name,
                         rr_description = field_name @ '' must have at least '' @
                                          (case pf_min_length cfg of None \<Rightarrow> ''None'' | Some n \<Rightarrow> show_int n) @
                                          '' characters'',
                         rr_status = FAIL,
                         rr_severity = ''error'',
                         rr_message = ''Field '' @ CHR 0x27 # field_name @ CHR 0x27 # '' is too short'',
                         rr_context = [] \<rparr>)
           else if (case pf_max_length cfg of
                      None \<Rightarrow> False
                    | Some n \<Rightarrow> int (length value_str) > n) then
             Inr (Some \<lparr> rr_rule_id = ''PORTAL_FIELD_MAX_LEN::'' @ field_name,
                         rr_description = field_name @ '' must have at most '' @
                                          (case pf_max_length cfg of None \<Rightarrow> ''None'' | Some n \<Rightarrow> show_int n) @
                                          '' characters'',
                         rr_status = FAIL,
                         rr_severity = ''error'',
                         rr_message = ''Field '' @ CHR 0x27 # field_name @ CHR 0x27 # '' is too long'',
                         rr_context = [] \<rparr>)
           else
             Inr (Some \<lparr> rr_rule_id = ''PORTAL_FIELD_OK::'' @ field_name,
                         rr_description = field_name @ '' basic validation'',
                         rr_status = PASS,
                         rr_severity = ''warning'',
                         rr_message = ''Field '' @ CHR 0x27 # field_name @ CHR 0x27 # '' passed basic validation.'',
                         rr_context = [] \<rparr>))"

subsection \<open>Field resolution\<close>

text \<open>\<open>docs_by_type.get(doc_type, {})\<close>.\<close>

definition docs_get :: "(string \<times> pydict) list \<Rightarrow> string \<Rightarrow> pydict" where
  "docs_get docs_by_type doc_type = (case map_of docs_by_type doc_type of None \<Rightarrow> [] | Some d \<Rightarrow> d)"

text \<open>\<open>doc.get("fields", doc)\<close>: the \<open>fields\<close> entry when the key is there, else the document.\<close>

definition doc_fields :: "pydict \<Rightarrow> json" where
  "doc_fields doc = (case map_of doc ''fields'' of None \<Rightarrow> JObj doc | Some v \<Rightarrow> v)"

definition resolve_field ::
  "field_ref \<Rightarrow> pydict \<Rightarrow> (string \<times> pydict) list \<Rightarrow> py_exception + (json \<times> string)"
where
  "resolve_field ref portal_json docs_by_type =
    (if fr_source ref = ''portal'' then
       Inr (dict_get portal_json (fr_field ref), ''portal.'' @ fr_field ref)
     else if fr_source ref = ''doc'' then
       (case fr_doc_type ref of
          None \<Rightarrow> Inl (ValueError ''doc_type is required for doc source'')
        | Some doc_type \<Rightarrow>
            if doc_type = [] then Inl (ValueError ''doc_type is required for doc source'')
            else
              let doc = docs_get docs_by_type doc_type;
                  fields = doc_fields doc
              in (case attr_get fields (fr_field ref) of
                    Inl exc \<Rightarrow> Inl exc
                  | Inr v \<Rightarrow> Inr (v, doc_type @ ''.'' @ fr_field ref)))
     else Inl (ValueError (''Unknown source '' @ fr_source ref)))"

subsection \<open>Rule implementations\<close>

text \<open>
  \<open>RuleResult(rule_id=rule.id, description=rule.description, severity=rule.severity,
  status=..., message=..., context=...)\<close>, the shape of every result of a cross-source
  rule.
\<close>

definition result_of :: "cross_source_rule \<Rightarrow> rule_status \<Rightarrow> string \<Rightarrow> (string \<times> string) list \<Rightarrow> rule_result" where
  "result_of rule st msg ctx =
     \<lparr> rr_rule_id = cr_id rule, rr_description = cr_description rule, rr_status = st,
       rr_severity = cr_severity rule, rr_message = msg, rr_context = ctx \<rparr>"

definition rule_equality ::
  "py_builtins \<Rightarrow> cross_source_rule \<Rightarrow> pydict \<Rightarrow> (string \<times> pydict) list \<Rightarrow> py_exception + rule_result"
where
  "rule_equality B rule portal_json docs_by_type =
    (case (cr_left rule, cr_right rule) of
       (Some l, Some r) \<Rightarrow>
         (case resolve_field l portal_json docs_by_type of
            Inl exc \<Rightarrow> Inl exc
          | Inr (left_val, left_path) \<Rightarrow>
              (case resolve_field r portal_json docs_by_type of
                 Inl exc \<Rightarrow> Inl exc
               | Inr (right_val, right_path) \<Rightarrow>
                   if is_none left_val \<or> is_none right_val then
                     Inr (result_of rule FAIL
                            (''Missing values: '' @ left_path @ ''='' @ py_repr B left_val @ '', '' @
                             right_path @ ''='' @ py_repr B right_val)
                            [(''left_path'', left_path), (''right_path'', right_path)])
                   else if py_strip (py_str B left_val) = py_strip (py_str B right_val) then
                     Inr (result_of rule PASS
                            (''Values match for '' @ left_path @ '' and '' @ right_path)
                            [(''left'', py_str B left_val), (''right'', py_str B right_val)])
                   else
                     Inr (result_of rule FAIL
                            (''Values differ: '' @ left_path @ ''='' @ py_repr B left_val @ '', '' @
                             right_path @ ''='' @ py_repr B right_val)
                            [(''left'', py_str B left_val), (''right'', py_str B right_val)])))
     | _ \<Rightarrow> Inl AssertionError)"

definition rule_in_set ::
  "py_builtins \<Rightarrow> cross_source_rule \<Rightarrow> pydict \<Rightarrow> (string \<times> pydict) list \<Rightarrow> py_exception + rule_result"
where
  "rule_in_set B rule portal_json docs_by_type =
    (case cr_target rule of
       None \<Rightarrow> Inl AssertionError
     | Some tgt \<Rightarrow>
         (case cr_allowed_values rule of
            None \<Rightarrow> Inl AssertionError
          | Some allowed \<Rightarrow>
              if allowed = [] then Inl AssertionError
              else
                (case resolve_field tgt portal_json docs_by_type of
                   Inl exc \<Rightarrow> Inl exc
                 | Inr (v, path) \<Rightarrow>
                     if is_none v then
                       Inr (result_of rule FAIL (''Missing value at '' @ path) [])
                     else
                       let value_str = py_str B v in
                       if value_str \<in> set allowed then
                         Inr (result_of rule PASS
                                (path @ '' value '' @ repr_str B value_str @ '' is allowed'') [])
                       else
                         Inr (result_of rule FAIL
                                (path @ '' value '' @ repr_str B value_str @
                                 '' is not in allowed set '' @ str_list B allowed) []))))"

definition rule_regex ::
  "py_builtins \<Rightarrow> cross_source_rule \<Rightarrow> pydict \<Rightarrow> (string \<times> pydict) list \<Rightarrow> py_exception + rule_result"
where
  "rule_regex B rule portal_json docs_by_type =
    (case cr_target rule of
       None \<Rightarrow> Inl AssertionError
     | Some tgt \<Rightarrow>
         (case cr_regex rule of
            None \<Rightarrow> Inl AssertionError
          | Some rx \<Rightarrow>
              if rx = [] then Inl AssertionError
              else
                (case resolve_field tgt portal_json docs_by_type of
                   Inl exc \<Rightarrow> Inl exc
                 | Inr (v, path) \<Rightarrow>
                     let value_str = (if is_none v then [] else py_str B v) in
                     (case re_match B rx value_str of
                        Inl exc \<Rightarrow> Inl exc
                      | Inr matched \<Rightarrow>
                          if matched then
                            Inr (result_of rule PASS (path @ '' value matches regex'') [])
                          else
                            Inr (result_of rule FAIL
                                   (path @ '' value '' @ repr_str B value_str @
                                    '' does not match regex '' @ repr_str B rx) [])))))"

subsection \<open>Dates\<close>

text \<open>
  \<open>datetime.strptime(data, fmt)\<close> for a format of the directives \<open>%Y\<close>, \<open>%m\<close>, \<open>%d\<close>
  and literal characters, which is what \<open>_parse_date\<close> passes. The library turns the
  format into a regular expression, one group of alternatives per directive
  (\<open>%Y\<close>: four digits; \<open>%m\<close>: \<open>1[0-2]|0[1-9]|[1-9]\<close>;
  \<open>%d\<close>: \<open>3[01]|[12]\d|0[1-9]|[1-9]| [1-9]\<close>), matches it at the start of the data with
  backtracking over the alternatives in their order, refuses data left over after the
  match, and then builds the date, which refuses year 0 and a day the month does not have.
  Every refusal is a \<open>ValueError\<close>, whose message \<open>_parse_date\<close> never reads: it is
  \<open>None\<close> here.
\<close>

record date =
  date_year :: int
  date_month :: int
  date_day :: int

datatype fmt_item = Directive char | Literal char

fun parse_format :: "string \<Rightarrow> fmt_item list" where
  "parse_format [] = []"
| "parse_format [c] = [Literal c]"
| "parse_format (c # d # cs) =
     (if c = CHR ''%'' then Directive d # parse_format cs else Literal c # parse_format (d # cs))"

definition is_digit :: "char \<Rightarrow> bool" where
  "is_digit c = (c \<in> set ''0123456789'')"

definition digit_val :: "char \<Rightarrow> nat" where
  "digit_val c = of_char c - 48"

text \<open>One alternative of two characters, and of one character: the number read and the rest.\<close>

definition alt2 :: "(char \<Rightarrow> bool) \<Rightarrow> (char \<Rightarrow> bool) \<Rightarrow> string \<Rightarrow> (nat \<times> string) list" where
  "alt2 P Q s = (case s of
      a # b # rest \<Rightarrow> if P a \<and> Q b then [(10 * digit_val a + digit_val b, rest)] else []
    | _ \<Rightarrow> [])"

definition alt1 :: "(char \<Rightarrow> bool) \<Rightarrow> string \<Rightarrow> (nat \<times> string) list" where
  "alt1 P s = (case s of a # rest \<Rightarrow> if P a then [(digit_val a, rest)] else [] | _ \<Rightarrow> [])"

definition nonzero_digit :: "char \<Rightarrow> bool" where
  "nonzero_digit c = (c \<in> set ''123456789'')"

text \<open>The ways a directive matches at the start of \<open>s\<close>, in the order the library tries them.\<close>

definition directive_matches :: "char \<Rightarrow> string \<Rightarrow> (nat \<times> string) list" where
  "directive_matches d s =
    (if d = CHR ''Y'' then
       (case s of
          a # b # c # e # rest \<Rightarrow>
            if is_digit a \<and> is_digit b \<and> is_digit c \<and> is_digit e
            then [(1000 * digit_val a + 100 * digit_val b + 10 * digit_val c + digit_val e, rest)]
            else []
        | _ \<Rightarrow> [])
     else if d = CHR ''m'' then
       alt2 (\<lambda>c. c = CHR ''1'') (\<lambda>c. c \<in> set ''012'') s @
       alt2 (\<lambda>c. c = CHR ''0'') nonzero_digit s @
       alt1 nonzero_digit s
     else if d = CHR ''d'' then
       alt2 (\<lambda>c. c = CHR ''3'') (\<lambda>c. c \<in> set ''01'') s @
       alt2 (\<lambda>c. c \<in> set ''12'') is_digit s @
       alt2 (\<lambda>c. c = CHR ''0'') nonzero_digit s @
       alt1 nonzero_digit s @
       (case s of a # rest \<Rightarrow> if a = CHR '' '' then alt1 nonzero_digit rest else [] | _ \<Rightarrow> [])
     else [])"

text \<open>
  The match of the whole format: the value of every directive and the data left over, for
  the first choice of alternatives under which the rest of the format matches too.
\<close>

fun first_some :: "('a \<Rightarrow> 'b option) \<Rightarrow> 'a list \<Rightarrow> 'b option" where
  "first_some f [] = None"
| "first_some f (x # xs) = (case f x of Some y \<Rightarrow> Some y | None \<Rightarrow> first_some f xs)"

fun match_items :: "fmt_item list \<Rightarrow> string \<Rightarrow> ((char \<times> nat) list \<times> string) option" where
  "match_items [] s = Some ([], s)"
| "match_items (Literal c # items) s =
     (case s of [] \<Rightarrow> None | x # xs \<Rightarrow> if x = c then match_items items xs else None)"
| "match_items (Directive d # items) s =
     first_some
       (\<lambda>alt. case match_items items (snd alt) of
                None \<Rightarrow> None
              | Some (found, rest) \<Rightarrow> Some ((d, fst alt) # found, rest))
       (directive_matches d s)"

definition is_leap :: "int \<Rightarrow> bool" where
  "is_leap y = (y mod 4 = 0 \<and> (y mod 100 \<noteq> 0 \<or> y mod 400 = 0))"

definition days_in_month :: "int \<Rightarrow> int \<Rightarrow> int" where
  "days_in_month y m =
     (if m = 2 then (if is_leap y then 29 else 28)
      else if m \<in> {4, 6, 9, 11} then 30 else 31)"

definition valid_date :: "int \<Rightarrow> int \<Rightarrow> int \<Rightarrow> bool" where
  "valid_date y m d = (1 \<le> y \<and> y \<le> 9999 \<and> 1 \<le> m \<and> m \<le> 12 \<and> 1 \<le> d \<and> d \<le> days_in_month y m)"

definition found_or :: "(char \<times> nat) list \<Rightarrow> char \<Rightarrow> int \<Rightarrow> int" where
  "found_or found d dflt = (case map_of found d of None \<Rightarrow> dflt | Some n \<Rightarrow> int n)"

definition strptime :: "string \<Rightarrow> string \<Rightarrow> date option" where
  "strptime data fmt =
    (case match_items (parse_format fmt) data of
       None \<Rightarrow> None
     | Some (found, rest) \<Rightarrow>
         if rest \<noteq> [] then None
         else
           let y = found_or found (CHR ''Y'') 1900;
               m = found_or found (CHR ''m'') 1;
               d = found_or found (CHR ''d'') 1
           in if valid_date y m d
              then Some \<lparr> date_year = y, date_month = m, date_day = d \<rparr>
              else None)"

text \<open>\<open>s.zfill(n)\<close> on the digits of a number, and \<open>date.isoformat()\<close>.\<close>

definition zfill :: "nat \<Rightarrow> string \<Rightarrow> string" where
  "zfill n s = replicate (n - length s) (CHR ''0'') @ s"

definition isoformat :: "date \<Rightarrow> string" where
  "isoformat dt =
     zfill 4 (show_int (date_year dt)) @ ''-'' @ zfill 2 (show_int (date_month dt)) @ ''-'' @
     zfill 2 (show_int (date_day dt))"

definition date_formats :: "string list" where
  "date_formats = [''%Y-%m-%d'', ''%d/%m/%Y'', ''%d-%m-%Y'', ''%d.%m.%Y'']"

text \<open>The \<open>for fmt in (...)\<close> loop of \<open>_parse_date\<close>: \<open>None\<close> when it runs off its end.\<close>

fun parse_date_loop :: "string \<Rightarrow> string list \<Rightarrow> date option" where
  "parse_date_loop v [] = None"
| "parse_date_loop v (fmt # fmts) =
     (case strptime v fmt of Some dt \<Rightarrow> Some dt | None \<Rightarrow> parse_date_loop v fmts)"

definition parse_date :: "py_builtins \<Rightarrow> string \<Rightarrow> py_exception + date" where
  "parse_date B v0 =
    (let v = py_strip v0 in
     case parse_date_loop v date_formats of
       Some dt \<Rightarrow> Inr dt
     | None \<Rightarrow> Inl (ValueError (''Unsupported date format '' @ repr_str B v)))"

text \<open>
  \<open>_rule_date_within_year\<close>; \<open>now_year\<close> is \<open>datetime.utcnow().date().year\<close>, an input of
  the model. Only a \<open>ValueError\<close> of \<open>_parse_date\<close> is handled here.
\<close>

definition rule_date_within_year ::
  "py_builtins \<Rightarrow> int \<Rightarrow> cross_source_rule \<Rightarrow> pydict \<Rightarrow> (string \<times> pydict) list \<Rightarrow> py_exception + rule_result"
where
  "rule_date_within_year B now_year rule portal_json docs_by_type =
    (case cr_target rule of
       None \<Rightarrow> Inl AssertionError
     | Some tgt \<Rightarrow>
         (case resolve_field tgt portal_json docs_by_type of
            Inl exc \<Rightarrow> Inl exc
          | Inr (v, path) \<Rightarrow>
              if \<not> py_truthy B v then
                Inr (result_of rule FAIL (path @ '' is missing'') [])
              else
                let year_delta = opt_int_or (cr_year_delta rule) 0 in
                (case parse_date B (py_str B v) of
                   Inl (ValueError m) \<Rightarrow>
                     Inr (result_of rule FAIL (path @ '' date parse error: '' @ m) [])
                 | Inl exc \<Rightarrow> Inl exc
                 | Inr dt \<Rightarrow>
                     let diff_years = \<bar>now_year - date_year dt\<bar> in
                     if diff_years \<le> year_delta then
                       Inr (result_of rule PASS
                              (path @ '' date '' @ isoformat dt @ '' is within '' @
                               show_int year_delta @ '' year(s) of now'') [])
                     else
                       Inr (result_of rule FAIL
                              (path @ '' date '' @ isoformat dt @ '' is older than '' @
                               show_int year_delta @ '' year(s)'') []))))"

subsection \<open>Page count and flags\<close>

definition rule_page_count ::
  "py_builtins \<Rightarrow> cross_source_rule \<Rightarrow> pydict \<Rightarrow> (string \<times> pydict) list \<Rightarrow> py_exception + rule_result"
where
  "rule_page_count B rule portal_json docs_by_type =
    (case cr_target rule of
       None \<Rightarrow> Inl AssertionError
     | Some tgt \<Rightarrow>
         if \<not> opt_str_truthy (fr_doc_type tgt) then
           Inl (ValueError ''page_count_between rule requires target.doc_type'')
         else
           let doc_type = (case fr_doc_type tgt of None \<Rightarrow> [] | Some t \<Rightarrow> t);
               doc = docs_get docs_by_type doc_type;
               pages = py_or B (dict_get doc ''pages'') (dict_get doc ''page_count'')
           in (case (case pages of
                       JList xs \<Rightarrow> Inr (int (length xs))
                     | _ \<Rightarrow> py_int B (py_or B pages (JInt 0))) of
                 Inl exc \<Rightarrow> Inl exc
               | Inr page_count \<Rightarrow>
                   let min_pages = opt_int_or (cr_min_pages rule) 0;
                       max_pages = opt_int_or (cr_max_pages rule) (10 ^ 9)
                   in if min_pages \<le> page_count \<and> page_count \<le> max_pages then
                        Inr (result_of rule PASS
                               (doc_type @ '' has '' @ show_int page_count @ '' pages (within ['' @
                                show_int min_pages @ '', '' @ show_int max_pages @ ''])'') [])
                      else
                        Inr (result_of rule FAIL
                               (doc_type @ '' has '' @ show_int page_count @
                                '' pages (expected between '' @ show_int min_pages @ '' and '' @
                                show_int max_pages @ '')'') [])))"

text \<open>
  The loop of \<open>_rule_flags_match\<close> over \<open>rule.flags\<close>, with the list \<open>mismatches\<close> it
  appends to.
\<close>

fun flags_loop ::
  "py_builtins \<Rightarrow> json \<Rightarrow> flag_expectation list \<Rightarrow> (string \<times> bool \<times> bool) list
   \<Rightarrow> py_exception + (string \<times> bool \<times> bool) list"
where
  "flags_loop B fields' [] mismatches = Inr mismatches"
| "flags_loop B fields' (flag # rest) mismatches =
     (case attr_get fields' (fe_field flag) of
        Inl exc \<Rightarrow> Inl exc
      | Inr v \<Rightarrow>
          let actual = py_truthy B v in
          flags_loop B fields' rest
            (if actual \<noteq> fe_expected flag
             then mismatches @ [(fe_field flag, fe_expected flag, actual)]
             else mismatches))"

definition rule_flags_match ::
  "py_builtins \<Rightarrow> cross_source_rule \<Rightarrow> pydict \<Rightarrow> (string \<times> pydict) list \<Rightarrow> py_exception + rule_result"
where
  "rule_flags_match B rule portal_json docs_by_type =
    (case cr_target rule of
       None \<Rightarrow> Inl AssertionError
     | Some tgt \<Rightarrow>
         if \<not> opt_list_truthy (cr_flags rule) then Inl AssertionError
         else if \<not> opt_str_truthy (fr_doc_type tgt) then
           Inl (ValueError ''flags_match rule requires target.doc_type'')
         else
           let doc_type = (case fr_doc_type tgt of None \<Rightarrow> [] | Some t \<Rightarrow> t);
               doc = docs_get docs_by_type doc_type;
               fields = doc_fields doc
           in (case flags_loop B fields (case cr_flags rule of None \<Rightarrow> [] | Some fl \<Rightarrow> fl) [] of
                 Inl exc \<Rightarrow> Inl exc
               | Inr mismatches \<Rightarrow>
                   if mismatches = [] then
                     Inr (result_of rule PASS (''All required flags present for '' @ doc_type) [])
                   else
                     let details = py_join '', ''
                           (map (\<lambda>(name, exp, act).
                                   name @ ''=expected '' @ show_bool exp @ '', got '' @ show_bool act)
                                mismatches)
                     in Inr (result_of rule FAIL
                               (''Flag mismatches for '' @ doc_type @ '': '' @ details) [])))"

subsection \<open>The dispatcher and the run\<close>

text \<open>The body of the \<open>try\<close> block of \<open>_apply_rule\<close>.\<close>

definition apply_rule_try ::
  "py_builtins \<Rightarrow> int \<Rightarrow> cross_source_rule \<Rightarrow> pydict \<Rightarrow> (string \<times> pydict) list \<Rightarrow> py_exception + rule_result"
where
  "apply_rule_try B now_year rule portal_json docs_by_type =
    (if cr_rule_type rule = ''equality'' then rule_equality B rule portal_json docs_by_type
     else if cr_rule_type rule = ''in_set'' then rule_in_set B rule portal_json docs_by_type
     else if cr_rule_type rule = ''regex'' then rule_regex B rule portal_json docs_by_type
     else if cr_rule_type rule = ''date_within_year'' then
       rule_date_within_year B now_year rule portal_json docs_by_type
     else if cr_rule_type rule = ''page_count_between'' then
       rule_page_count B rule portal_json docs_by_type
     else if cr_rule_type rule = ''flags_match'' then rule_flags_match B rule portal_json docs_by_type
     else Inr (result_of rule SKIP (''Unknown rule_type '' @ repr_str B (cr_rule_type rule)) []))"

text \<open>
  \<open>_apply_rule\<close>: the \<open>try\<close> block under \<open>except Exception as exc\<close>. The handler returns a
  result; the function's type still allows an exception, so that its absence is a theorem.
\<close>

definition apply_rule ::
  "py_builtins \<Rightarrow> int \<Rightarrow> cross_source_rule \<Rightarrow> pydict \<Rightarrow> (string \<times> pydict) list \<Rightarrow> py_exception + rule_result"
where
  "apply_rule B now_year rule portal_json docs_by_type =
    (case apply_rule_try B now_year rule portal_json docs_by_type of
       Inr res \<Rightarrow> Inr res
     | Inl exc \<Rightarrow>
         Inr (result_of rule FAIL (''Exception while applying rule: '' @ exc_str exc) []))"

text \<open>
  The two loops of \<open>validate\<close>, each appending to the list \<open>results\<close> (here \<open>acc\<close>); an
  exception that reaches a loop ends the run.
\<close>

fun portal_loop ::
  "py_builtins \<Rightarrow> (string \<times> portal_field_validation) list \<Rightarrow> pydict \<Rightarrow> rule_result list
   \<Rightarrow> py_exception + rule_result list"
where
  "portal_loop B [] portal_json acc = Inr acc"
| "portal_loop B ((field_name, field_cfg) # rest) portal_json acc =
     (case validate_portal_field B field_name field_cfg portal_json of
        Inl exc \<Rightarrow> Inl exc
      | Inr None \<Rightarrow> portal_loop B rest portal_json acc
      | Inr (Some res) \<Rightarrow> portal_loop B rest portal_json (acc @ [res]))"

fun rules_loop ::
  "py_builtins \<Rightarrow> int \<Rightarrow> cross_source_rule list \<Rightarrow> pydict \<Rightarrow> (string \<times> pydict) list
   \<Rightarrow> rule_result list \<Rightarrow> py_exception + rule_result list"
where
  "rules_loop B now_year [] portal_json docs_by_type acc = Inr acc"
| "rules_loop B now_year (rule # rest) portal_json docs_by_type acc =
     (case apply_rule B now_year rule portal_json docs_by_type of
        Inl exc \<Rightarrow> Inl exc
      | Inr res \<Rightarrow> rules_loop B now_year rest portal_json docs_by_type (acc @ [res]))"

definition validate ::
  "py_builtins \<Rightarrow> int \<Rightarrow> validation_config \<Rightarrow> pydict \<Rightarrow> (string \<times> pydict) list
   \<Rightarrow> py_exception + validation_report"
where
  "validate B now_year config portal_json docs_by_type =
    (case portal_loop B (portal_field_validations config) portal_json [] of
       Inl exc \<Rightarrow> Inl exc
     | Inr results1 \<Rightarrow>
         (case rules_loop B now_year (cross_source_rules config) portal_json docs_by_type results1 of
            Inl exc \<Rightarrow> Inl exc
          | Inr results2 \<Rightarrow>
              Inr \<lparr> summary_status = aggregate_status results2, results = results2 \<rparr>))"

section \<open>The per-field view (core/portal_validation.py)\<close>

record field_validation_result =
  fv_field_name :: string
  fv_value :: "string option"
  fv_is_valid :: bool
  fv_failure_reason :: "string option"

record supplier_validation_response =
  supplier_id :: string
  sv_results :: "field_validation_result list"

text \<open>
  \<open>_failure_reason_from_rule_id\<close>. \<open>rule_id.split("::", 1)[0]\<close> always exists, since
  \<open>split\<close> returns at least one string.
\<close>

definition failure_reason_from_rule_id :: "string \<Rightarrow> string" where
  "failure_reason_from_rule_id rule_id =
    (let prefix = (case split1 rule_id ''::'' of [] \<Rightarrow> [] | p # _ \<Rightarrow> p) in
     if prefix = ''PORTAL_FIELD_REQUIRED'' then ''MISSING_REQUIRED''
     else if prefix = ''PORTAL_FIELD_PATTERN'' then ''PATTERN_MISMATCH''
     else if prefix = ''PORTAL_FIELD_IN_SET'' then ''INVALID_VALUE''
     else if prefix = ''PORTAL_FIELD_MIN_LEN'' then ''MIN_LENGTH''
     else if prefix = ''PORTAL_FIELD_MAX_LEN'' then ''MAX_LENGTH''
     else ''GENERIC_FAIL'')"

text \<open>
  \<open>d[k] = v\<close> on a dict kept in insertion order: a key that is there keeps its place and
  gets the new value, a new key goes to the end.
\<close>

fun dict_set :: "(string \<times> 'v) list \<Rightarrow> string \<Rightarrow> 'v \<Rightarrow> (string \<times> 'v) list" where
  "dict_set [] k v = [(k, v)]"
| "dict_set ((k', v') # d) k v = (if k' = k then (k, v) # d else (k', v') # dict_set d k v)"

text \<open>
  The loop of \<open>portal_report_to_field_results\<close> over \<open>report.results\<close>, with the dict
  \<open>by_field\<close> it fills. Unpacking \<open>rule_id.split("::", 1)\<close> into two names raises
  \<open>ValueError\<close> unless the list has two elements, and the handler goes on to the next
  result.
\<close>

fun field_results_loop ::
  "py_builtins \<Rightarrow> rule_result list \<Rightarrow> pydict \<Rightarrow> (string \<times> field_validation_result) list
   \<Rightarrow> (string \<times> field_validation_result) list"
where
  "field_results_loop B [] portal_json by_field = by_field"
| "field_results_loop B (rule_res # rest) portal_json by_field =
     (if \<not> startswith (rr_rule_id rule_res) ''PORTAL_FIELD_'' then
        field_results_loop B rest portal_json by_field
      else
        (case split1 (rr_rule_id rule_res) ''::'' of
           [u, field_name] \<Rightarrow>
             let raw_val = dict_get portal_json field_name;
                 value_str = (if is_none raw_val then None else Some (py_str B raw_val));
                 is_valid = (rr_status rule_res = PASS);
                 failure_reason = (if rr_status rule_res = PASS then None
                                   else Some (failure_reason_from_rule_id (rr_rule_id rule_res)))
             in field_results_loop B rest portal_json
                  (dict_set by_field field_name
                     \<lparr> fv_field_name = field_name, fv_value = value_str,
                       fv_is_valid = is_valid, fv_failure_reason = failure_reason \<rparr>)
         | _ \<Rightarrow> field_results_loop B rest portal_json by_field))"

definition portal_report_to_field_results ::
  "py_builtins \<Rightarrow> validation_report \<Rightarrow> pydict \<Rightarrow> field_validation_result list"
where
  "portal_report_to_field_results B report portal_json =
     map snd (field_results_loop B (results report) portal_json [])"

text \<open>
  \<open>validate_portal_fields_for_supplier\<close>; \<open>engine_config\<close> is the configuration of the
  module's \<open>ENGINE\<close>, and the documents are the empty dict.
\<close>

definition validate_portal_fields_for_supplier ::
  "py_builtins \<Rightarrow> int \<Rightarrow> validation_config \<Rightarrow> string \<Rightarrow> pydict
   \<Rightarrow> py_exception + supplier_validation_response"
where
  "validate_portal_fields_for_supplier B now_year engine_config sid portal_fields =
    (case validate B now_year engine_config portal_fields [] of
       Inl exc \<Rightarrow> Inl exc
     | Inr report \<Rightarrow>
         Inr \<lparr> supplier_id = sid,
               sv_results = portal_report_to_field_results B report portal_fields \<rparr>)"

section \<open>The spec's wording, for comparison with the code\<close>

text \<open>
  Section 4.2 of the spec, in its own words: five checks in a fixed precedence, each either
  failing or not on the raw value of the field; the first one that fails decides the
  result. The presence check fails on \<open>None\<close> and on the empty string; a check that is not
  configured does not fail; the allowed-values check, if configured, fails when the string
  is not a member of the set, whatever the set. The empty pattern matches at the start of
  every string, so the pattern check never fails on it. These definitions are compared
  with \<open>validate_portal_field\<close> below.
\<close>

datatype portal_check = Presence | Pattern | AllowedValues | MinLength | MaxLength

definition spec_precedence :: "portal_check list" where
  "spec_precedence = [Presence, Pattern, AllowedValues, MinLength, MaxLength]"

fun spec_check_fails :: "py_builtins \<Rightarrow> portal_field_validation \<Rightarrow> json \<Rightarrow> portal_check \<Rightarrow> bool" where
  "spec_check_fails B cfg raw Presence = (is_none raw \<or> is_empty_str raw)"
| "spec_check_fails B cfg raw Pattern =
     (case pf_pattern cfg of
        None \<Rightarrow> False
      | Some p \<Rightarrow> p \<noteq> [] \<and> re_match B p (py_str B raw) = Inr False)"
| "spec_check_fails B cfg raw AllowedValues =
     (case pf_allowed_values cfg of
        None \<Rightarrow> False
      | Some allowed \<Rightarrow> py_str B raw \<notin> set allowed)"
| "spec_check_fails B cfg raw MinLength =
     (case pf_min_length cfg of None \<Rightarrow> False | Some n \<Rightarrow> int (length (py_str B raw)) < n)"
| "spec_check_fails B cfg raw MaxLength =
     (case pf_max_length cfg of None \<Rightarrow> False | Some n \<Rightarrow> n < int (length (py_str B raw)))"

fun spec_check_prefix :: "portal_check \<Rightarrow> string" where
  "spec_check_prefix Presence = ''PORTAL_FIELD_REQUIRED''"
| "spec_check_prefix Pattern = ''PORTAL_FIELD_PATTERN''"
| "spec_check_prefix AllowedValues = ''PORTAL_FIELD_IN_SET''"
| "spec_check_prefix MinLength = ''PORTAL_FIELD_MIN_LEN''"
| "spec_check_prefix MaxLength = ''PORTAL_FIELD_MAX_LEN''"

text \<open>
  What the spec says of the evaluator's result \<open>res\<close> for field \<open>f\<close>, given the first
  failing check \<open>failing\<close> (\<open>None\<close>: every check passes).
\<close>

definition spec_portal_outcome ::
  "string \<Rightarrow> portal_field_validation \<Rightarrow> portal_check option \<Rightarrow> rule_result option \<Rightarrow> bool" where
  "spec_portal_outcome f cfg failing res =
     (case failing of
        None \<Rightarrow>
          (case res of
             None \<Rightarrow> False
           | Some r \<Rightarrow> rr_rule_id r = ''PORTAL_FIELD_OK::'' @ f \<and> rr_status r = PASS \<and>
                  rr_severity r = ''warning'')
      | Some c \<Rightarrow>
          if c = Presence \<and> \<not> pf_required cfg then res = None
          else
            (case res of
               None \<Rightarrow> False
             | Some r \<Rightarrow> rr_rule_id r = spec_check_prefix c @ ''::'' @ f \<and> rr_status r = FAIL \<and>
                    rr_severity r = ''error''))"

text \<open>
  The configuration as \<open>_validate_portal_field\<close> reads it: \<open>if cfg.allowed_values:\<close> takes
  an empty list of allowed values for no list.
\<close>

definition allowed_values_as_read :: "portal_field_validation \<Rightarrow> portal_field_validation" where
  "allowed_values_as_read cfg =
     cfg \<lparr> pf_allowed_values :=
             (case pf_allowed_values cfg of
                None \<Rightarrow> None
              | Some allowed \<Rightarrow> if allowed = [] then None else Some allowed) \<rparr>"

text \<open>
  The page count as the spec words it (section 4.3): the length of the \<open>pages\<close> list if
  that list is present, else the integer cast of \<open>page_count\<close>, 0 if that is absent or
  falsy.
\<close>

definition spec_page_count :: "py_builtins \<Rightarrow> pydict \<Rightarrow> py_exception + int" where
  "spec_page_count B doc =
     (case map_of doc ''pages'' of
        Some (JList xs) \<Rightarrow> Inr (int (length xs))
      | _ \<Rightarrow>
          let pc = dict_get doc ''page_count''
          in if py_truthy B pc then py_int B pc else Inr 0)"

text \<open>
  What it is for an entry \<open>fr\<close> of the per-field view to be the surfacing of a result
  \<open>r\<close>: the rule id of \<open>r\<close> starts with \<open>PORTAL_FIELD_\<close> and splits at its first \<open>::\<close>
  into a prefix and the entry's field name; the entry's value is the portal document's
  string for that field; it is valid iff \<open>r\<close> is a PASS, and its failure reason is absent
  for a PASS and the reason mapped from the rule id otherwise.
\<close>

definition surfaced_from :: "py_builtins \<Rightarrow> pydict \<Rightarrow> rule_result \<Rightarrow> field_validation_result \<Rightarrow> bool" where
  "surfaced_from B portal_json r fr =
     (startswith (rr_rule_id r) ''PORTAL_FIELD_'' \<and>
      (case split1 (rr_rule_id r) ''::'' of
         [p, name] \<Rightarrow> name = fv_field_name fr
       | _ \<Rightarrow> False) \<and>
      fv_value fr = (if is_none (dict_get portal_json (fv_field_name fr)) then None
                     else Some (py_str B (dict_get portal_json (fv_field_name fr)))) \<and>
      fv_is_valid fr = (rr_status r = PASS) \<and>
      fv_failure_reason fr =
        (if rr_status r = PASS then None
         else Some (failure_reason_from_rule_id (rr_rule_id r))))"

section \<open>Values for the examples\<close>

text \<open>
  The examples below run the engine on concrete documents. They use these values of the
  builtins, which agree with Python on the strings of the examples: \<open>repr\<close> of a string
  of printable ASCII characters with no quote and no backslash puts it between single
  quotes, and \<open>re.match\<close> with a pattern free of special characters looks for the pattern
  at the start of the string. \<open>int\<close> of a value that is no number and no string raises
  \<open>TypeError\<close>. No example has a float, or casts a string to \<open>int\<close>.
\<close>

definition plain_builtins :: py_builtins where
  "plain_builtins =
     \<lparr> re_match = (\<lambda>p s. Inr (startswith s p)),
       repr_str = (\<lambda>s. CHR 0x27 # s @ [CHR 0x27]),
       repr_float = (\<lambda>f. ''nan''),
       float_truthy = (\<lambda>f. True),
       int_conv = (\<lambda>v. Inl (TypeError
                    (''int() argument must be a string, a bytes-like object or a real number, not '' @
                     CHR 0x27 # type_name v @ [CHR 0x27]))) \<rparr>"

definition email_required :: portal_field_validation where
  "email_required =
     \<lparr> pf_type = ''string'', pf_required = True, pf_pattern = None, pf_allowed_values = None,
       pf_min_length = None, pf_max_length = None, pf_description = None \<rparr>"

definition email_config :: validation_config where
  "email_config =
     \<lparr> portal_field_validations = [(''email'', email_required)], cross_source_rules = [] \<rparr>"

definition email_optional :: portal_field_validation where
  "email_optional = email_required \<lparr> pf_required := False \<rparr>"

definition email_pattern :: portal_field_validation where
  "email_pattern =
     \<lparr> pf_type = ''string'', pf_required = True, pf_pattern = Some ''a@'',
       pf_allowed_values = None, pf_min_length = Some 3, pf_max_length = Some 5,
       pf_description = None \<rparr>"

definition country_empty_set :: portal_field_validation where
  "country_empty_set = email_required \<lparr> pf_allowed_values := Some [] \<rparr>"

definition portal_ref :: "string \<Rightarrow> field_ref" where
  "portal_ref name = \<lparr> fr_source = ''portal'', fr_field = name, fr_doc_type = None \<rparr>"

definition doc_ref :: "string \<Rightarrow> string \<Rightarrow> field_ref" where
  "doc_ref doc_type name = \<lparr> fr_source = ''doc'', fr_field = name, fr_doc_type = Some doc_type \<rparr>"

definition bare_rule :: "string \<Rightarrow> string \<Rightarrow> cross_source_rule" where
  "bare_rule ident ty =
     \<lparr> cr_id = ident, cr_description = ''example'', cr_severity = ''error'', cr_rule_type = ty,
       cr_left = None, cr_right = None, cr_target = None, cr_allowed_values = None,
       cr_regex = None, cr_year_delta = None, cr_min_pages = None, cr_max_pages = None,
       cr_flags = None \<rparr>"

definition cr_number_rule :: cross_source_rule where
  "cr_number_rule = (bare_rule ''R_EQ'' ''equality'')
     \<lparr> cr_left := Some (portal_ref ''cr_number''),
       cr_right := Some (doc_ref ''moc_certificate'' ''cr_number'') \<rparr>"

definition no_target_rule :: cross_source_rule where
  "no_target_rule = (bare_rule ''R_SET'' ''in_set'') \<lparr> cr_allowed_values := Some [''SA''] \<rparr>"

definition no_doc_type_rule :: cross_source_rule where
  "no_doc_type_rule = (bare_rule ''R_DOC'' ''equality'')
     \<lparr> cr_left := Some (portal_ref ''cr_number''),
       cr_right := Some \<lparr> fr_source = ''doc'', fr_field = ''cr_number'', fr_doc_type = None \<rparr> \<rparr>"

definition cr_portal :: pydict where
  "cr_portal = [(''cr_number'', JStr ''123'')]"

definition cr_docs :: "(string \<times> pydict) list" where
  "cr_docs = [(''moc_certificate'', [(''fields'', JObj [(''cr_number'', JStr '' 123 '')])])]"

definition mixed_config :: validation_config where
  "mixed_config =
     \<lparr> portal_field_validations = [(''email'', email_required)],
       cross_source_rules = [cr_number_rule, no_target_rule] \<rparr>"

definition nda_flags_rule :: cross_source_rule where
  "nda_flags_rule = (bare_rule ''R_FLAGS'' ''flags_match'')
     \<lparr> cr_target := Some (doc_ref ''nda'' ''flags''),
       cr_flags := Some [\<lparr> fe_field = ''has_signature'', fe_expected = False \<rparr>,
                         \<lparr> fe_field = ''has_stamp'', fe_expected = False \<rparr>] \<rparr>"

definition page_rule :: cross_source_rule where
  "page_rule = (bare_rule ''R_PAGES'' ''page_count_between'')
     \<lparr> cr_target := Some (doc_ref ''nda'' ''pages''),
       cr_min_pages := Some 1, cr_max_pages := Some 5 \<rparr>"

definition zero_pages_rule :: cross_source_rule where
  "zero_pages_rule = page_rule \<lparr> cr_min_pages := Some 0, cr_max_pages := Some 0 \<rparr>"

definition date_rule :: cross_source_rule where
  "date_rule = (bare_rule ''R_DATE'' ''date_within_year'')
     \<lparr> cr_target := Some (portal_ref ''d''), cr_year_delta := Some 1 \<rparr>"

definition prefixed_rule :: cross_source_rule where
  "prefixed_rule = (bare_rule ''PORTAL_FIELD_COUNTRY::email'' ''in_set'')
     \<lparr> cr_target := Some (portal_ref ''country''), cr_allowed_values := Some [''SA''] \<rparr>"

definition prefixed_config :: validation_config where
  "prefixed_config = \<lparr> portal_field_validations = [], cross_source_rules = [prefixed_rule] \<rparr>"

section \<open>Aggregation of the summary status\<close>

lemma py_any_iff: "py_any p rs = (\<exists>r\<in>set rs. p r)"
  by (induction rs) auto

lemma aggregate_status_cases:
  "aggregate_status rs =
     (if (\<exists>r\<in>set rs. rr_status r = FAIL) then FAIL
      else if (\<exists>r\<in>set rs. rr_status r = WARNING) then WARNING
      else PASS)"
  by (simp add: aggregate_status_def py_any_iff)

lemma validate_report:
  assumes "validate B now_year config portal_json docs_by_type = Inr report"
  shows "summary_status report = aggregate_status (results report)"
  using assms by (auto simp: validate_def split: sum.splits)

lemma email_missing_report:
  "validate plain_builtins 2025 email_config [] [] =
     Inr \<lparr> summary_status = FAIL,
           results = [\<lparr> rr_rule_id = ''PORTAL_FIELD_REQUIRED::email'',
                        rr_description = ''email is required'', rr_status = FAIL,
                        rr_severity = ''error'',
                        rr_message = ''Field '' @ CHR 0x27 # ''email'' @ CHR 0x27 # '' is missing or empty.'',
                        rr_context = [] \<rparr>] \<rparr>"
  by (simp add: validate_def email_config_def email_required_def validate_portal_field_def
        dict_get_def aggregate_status_def)

text \<open>
  Claim C1. \<open>_aggregate_status\<close> of any list of results is FAIL if at least one result has
  status FAIL, otherwise WARNING if at least one has status WARNING, otherwise PASS; and
  the \<open>summary_status\<close> of every report that \<open>validate\<close> returns is that function of the
  report's own results.
\<close>

theorem summary_status_aggregation:
  "aggregate_status rs =
     (if (\<exists>r\<in>set rs. rr_status r = FAIL) then FAIL
      else if (\<exists>r\<in>set rs. rr_status r = WARNING) then WARNING
      else PASS) \<and>
   (validate B now_year config portal_json docs_by_type = Inr report \<longrightarrow>
      summary_status report =
        (if (\<exists>r\<in>set (results report). rr_status r = FAIL) then FAIL
         else if (\<exists>r\<in>set (results report). rr_status r = WARNING) then WARNING
         else PASS))"
proof (intro conjI impI)
  show "aggregate_status rs =
     (if (\<exists>r\<in>set rs. rr_status r = FAIL) then FAIL
      else if (\<exists>r\<in>set rs. rr_status r = WARNING) then WARNING
      else PASS)"
    by (rule aggregate_status_cases)
next
  assume "validate B now_year config portal_json docs_by_type = Inr report"
  then have "summary_status report = aggregate_status (results report)"
    by (rule validate_report)
  then show "summary_status report =
        (if (\<exists>r\<in>set (results report). rr_status r = FAIL) then FAIL
         else if (\<exists>r\<in>set (results report). rr_status r = WARNING) then WARNING
         else PASS)"
    by (simp only: aggregate_status_cases)
qed

text \<open>
  The run of a configuration that requires \<open>email\<close> on an empty portal document returns a
  report, its one result has status FAIL, and so has the summary.
\<close>

theorem summary_status_aggregation_witness:
  "\<exists>report. validate plain_builtins 2025 email_config [] [] = Inr report \<and>
      summary_status report = FAIL \<and> (\<exists>r\<in>set (results report). rr_status r = FAIL)"
  using summary_status_aggregation [of "[]" plain_builtins 2025 email_config "[]" "[]"]
    email_missing_report
  by simp

section \<open>The portal field evaluator\<close>

lemma validate_portal_field_empty:
  assumes "is_none (dict_get portal_json f) \<or> is_empty_str (dict_get portal_json f)"
  shows "validate_portal_field B f cfg portal_json =
    (if pf_required cfg then
       Inr (Some \<lparr> rr_rule_id = ''PORTAL_FIELD_REQUIRED::'' @ f,
                   rr_description = f @ '' is required'',
                   rr_status = FAIL,
                   rr_severity = ''error'',
                   rr_message = ''Field '' @ CHR 0x27 # f @ CHR 0x27 # '' is missing or empty.'',
                   rr_context = [] \<rparr>)
     else Inr None)"
  using assms unfolding validate_portal_field_def Let_def by (simp only: if_True)

lemma validate_portal_field_raises:
  "validate_portal_field B f cfg portal_json = Inl exc \<longleftrightarrow>
     \<not> (is_none (dict_get portal_json f) \<or> is_empty_str (dict_get portal_json f)) \<and>
     (\<exists>p. pf_pattern cfg = Some p \<and> p \<noteq> [] \<and>
          re_match B p (py_str B (dict_get portal_json f)) = Inl exc)"
  unfolding validate_portal_field_def Let_def
  by (simp split: option.split sum.split)

lemma validate_portal_field_outcome:
  assumes "validate_portal_field B f cfg portal_json = Inr res"
  shows "spec_portal_outcome f cfg
           (find (spec_check_fails B (allowed_values_as_read cfg) (dict_get portal_json f))
              spec_precedence) res"
proof (cases "is_none (dict_get portal_json f) \<or> is_empty_str (dict_get portal_json f)")
  case True
  then have "find (spec_check_fails B (allowed_values_as_read cfg) (dict_get portal_json f))
               spec_precedence = Some Presence"
    by (simp add: spec_precedence_def)
  moreover from assms have "res = (if pf_required cfg then
       Some \<lparr> rr_rule_id = ''PORTAL_FIELD_REQUIRED::'' @ f,
              rr_description = f @ '' is required'',
              rr_status = FAIL,
              rr_severity = ''error'',
              rr_message = ''Field '' @ CHR 0x27 # f @ CHR 0x27 # '' is missing or empty.'',
              rr_context = [] \<rparr>
     else None)"
    unfolding validate_portal_field_empty [OF True] by (simp split: if_splits)
  ultimately show ?thesis
    by (simp add: spec_portal_outcome_def)
next
  case False
  with assms [symmetric] show ?thesis
    unfolding validate_portal_field_def Let_def spec_precedence_def spec_portal_outcome_def
      allowed_values_as_read_def
    by (simp split: option.splits sum.splits if_splits) blast+
qed

lemma portal_loop_map_filter:
  "portal_loop B items portal_json acc = Inr rs \<Longrightarrow>
     rs = acc @ List.map_filter
                  (\<lambda>(f, cfg). case validate_portal_field B f cfg portal_json of
                                Inl exc \<Rightarrow> None | Inr res \<Rightarrow> res) items"
proof (induction items arbitrary: acc)
  case Nil
  then show ?case by simp
next
  case (Cons item items)
  obtain f cfg where item: "item = (f, cfg)" by (cases item)
  show ?case
  proof (cases "validate_portal_field B f cfg portal_json")
    case (Inl exc)
    with Cons.prems item show ?thesis by simp
  next
    case (Inr res)
    show ?thesis
    proof (cases res)
      case None
      with Cons.prems item Inr have "portal_loop B items portal_json acc = Inr rs" by simp
      from Cons.IH [OF this] item Inr None show ?thesis
        by simp
    next
      case (Some r)
      with Cons.prems item Inr have "portal_loop B items portal_json (acc @ [r]) = Inr rs" by simp
      from Cons.IH [OF this] item Inr Some show ?thesis
        by simp
    qed
  qed
qed

lemma length_map_filter_le: "length (List.map_filter g xs) \<le> length xs"
  by (induction xs) (auto split: option.splits)

lemma email_wrong_pattern:
  "validate_portal_field plain_builtins ''email'' email_pattern [(''email'', JStr ''x'')] =
     Inr (Some \<lparr> rr_rule_id = ''PORTAL_FIELD_PATTERN::email'',
                 rr_description = ''email must match pattern'',
                 rr_status = FAIL,
                 rr_severity = ''error'',
                 rr_message = ''Field '' @ CHR 0x27 # ''email'' @ CHR 0x27 #
                              '' has invalid format: '' @ [CHR 0x27, CHR ''x'', CHR 0x27],
                 rr_context = [] \<rparr>)"
  by (simp add: validate_portal_field_def email_pattern_def plain_builtins_def dict_get_def
        py_str_def startswith_def)

lemma email_wrong_pattern_checks:
  "find (spec_check_fails plain_builtins (allowed_values_as_read email_pattern)
           (dict_get [(''email'', JStr ''x'')] ''email''))
     spec_precedence = Some Pattern \<and>
   spec_check_fails plain_builtins (allowed_values_as_read email_pattern)
     (dict_get [(''email'', JStr ''x'')] ''email'') MinLength"
  by (simp add: spec_precedence_def email_pattern_def plain_builtins_def dict_get_def py_str_def
        startswith_def allowed_values_as_read_def)

lemma country_empty_set_passes:
  "validate_portal_field plain_builtins ''country'' country_empty_set [(''country'', JStr ''AE'')] =
     Inr (Some \<lparr> rr_rule_id = ''PORTAL_FIELD_OK::country'',
                 rr_description = ''country basic validation'',
                 rr_status = PASS,
                 rr_severity = ''warning'',
                 rr_message = ''Field '' @ CHR 0x27 # ''country'' @ CHR 0x27 #
                              '' passed basic validation.'',
                 rr_context = [] \<rparr>)"
  by (simp add: validate_portal_field_def country_empty_set_def email_required_def dict_get_def
        py_str_def)

lemma country_empty_set_checks:
  "pf_allowed_values country_empty_set = Some [] \<and>
   find (spec_check_fails plain_builtins country_empty_set
           (dict_get [(''country'', JStr ''AE'')] ''country'')) spec_precedence =
     Some AllowedValues \<and>
   find (spec_check_fails plain_builtins (allowed_values_as_read country_empty_set)
           (dict_get [(''country'', JStr ''AE'')] ''country'')) spec_precedence = None"
  by (simp add: spec_precedence_def country_empty_set_def email_required_def dict_get_def
        py_str_def allowed_values_as_read_def)

text \<open>
  Claim C3, as the code has it. Whenever the portal field evaluator returns, its result
  is the one the spec gives for the first failing check in the precedence presence,
  pattern, allowed values, min length, max length, on the configuration in which an empty
  list of allowed values counts as not configured: no result or a FAIL
  \<open>PORTAL_FIELD_REQUIRED::f\<close> for presence, a FAIL with the check's own rule id and
  severity error for the others, and a PASS with rule id \<open>PORTAL_FIELD_OK::f\<close> and
  severity warning when no check fails (the configuration of a portal field has no
  severity to read). It fails to return exactly when the value is present and \<open>re.match\<close>
  raises on the configured pattern. Over a run, the results of the portal loop are those
  of the fields that have one, in configuration order, so at most one per field.
\<close>

theorem portal_field_precedence:
  "(validate_portal_field B f cfg portal_json = Inr res \<longrightarrow>
      spec_portal_outcome f cfg
        (find (spec_check_fails B (allowed_values_as_read cfg) (dict_get portal_json f))
           spec_precedence) res) \<and>
   (validate_portal_field B f cfg portal_json = Inl exc \<longleftrightarrow>
      \<not> (is_none (dict_get portal_json f) \<or> is_empty_str (dict_get portal_json f)) \<and>
      (\<exists>p. pf_pattern cfg = Some p \<and> p \<noteq> [] \<and>
           re_match B p (py_str B (dict_get portal_json f)) = Inl exc)) \<and>
   (portal_loop B items portal_json acc = Inr rs \<longrightarrow>
      rs = acc @ List.map_filter
                   (\<lambda>(f, cfg). case validate_portal_field B f cfg portal_json of
                                 Inl exc \<Rightarrow> None | Inr res \<Rightarrow> res) items \<and>
      length rs \<le> length acc + length items)"
proof (intro conjI impI)
  assume "validate_portal_field B f cfg portal_json = Inr res"
  then show "spec_portal_outcome f cfg
        (find (spec_check_fails B (allowed_values_as_read cfg) (dict_get portal_json f))
           spec_precedence) res"
    by (rule validate_portal_field_outcome)
next
  show "validate_portal_field B f cfg portal_json = Inl exc \<longleftrightarrow>
      \<not> (is_none (dict_get portal_json f) \<or> is_empty_str (dict_get portal_json f)) \<and>
      (\<exists>p. pf_pattern cfg = Some p \<and> p \<noteq> [] \<and>
           re_match B p (py_str B (dict_get portal_json f)) = Inl exc)"
    by (rule validate_portal_field_raises)
next
  assume loop: "portal_loop B items portal_json acc = Inr rs"
  then show eq: "rs = acc @ List.map_filter
                   (\<lambda>(f, cfg). case validate_portal_field B f cfg portal_json of
                                 Inl exc \<Rightarrow> None | Inr res \<Rightarrow> res) items"
    by (rule portal_loop_map_filter)
  have "length rs = length acc + length (List.map_filter
                   (\<lambda>(f, cfg). case validate_portal_field B f cfg portal_json of
                                 Inl exc \<Rightarrow> None | Inr res \<Rightarrow> res) items)"
    by (subst eq) simp
  then show "length rs \<le> length acc + length items"
    using length_map_filter_le [of _ items] by simp
qed

text \<open>
  The value \<open>x\<close> fails the pattern check and the min-length check of \<open>email_pattern\<close>; the
  result is the pattern check's, which comes first, and the run has that one result. With
  an empty list of allowed values no check fails on \<open>AE\<close>, and the result is the PASS.
\<close>

theorem portal_field_precedence_witness:
  "(\<exists>r. validate_portal_field plain_builtins ''email'' email_pattern [(''email'', JStr ''x'')] =
          Inr (Some r) \<and>
       find (spec_check_fails plain_builtins (allowed_values_as_read email_pattern)
               (dict_get [(''email'', JStr ''x'')] ''email'')) spec_precedence = Some Pattern \<and>
       spec_check_fails plain_builtins (allowed_values_as_read email_pattern)
         (dict_get [(''email'', JStr ''x'')] ''email'') MinLength \<and>
       spec_portal_outcome ''email'' email_pattern (Some Pattern) (Some r) \<and>
       portal_loop plain_builtins [(''email'', email_pattern)] [(''email'', JStr ''x'')] [] =
         Inr [r]) \<and>
   (\<exists>r. validate_portal_field plain_builtins ''country'' country_empty_set
          [(''country'', JStr ''AE'')] = Inr (Some r) \<and>
       find (spec_check_fails plain_builtins (allowed_values_as_read country_empty_set)
               (dict_get [(''country'', JStr ''AE'')] ''country'')) spec_precedence = None \<and>
       spec_portal_outcome ''country'' country_empty_set None (Some r) \<and>
       rr_rule_id r = ''PORTAL_FIELD_OK::country'' \<and> rr_status r = PASS \<and>
       rr_severity r = ''warning'')"
  using portal_field_precedence
      [of plain_builtins "''email''" email_pattern "[(''email'', JStr ''x'')]"
          "Some \<lparr> rr_rule_id = ''PORTAL_FIELD_PATTERN::email'',
                  rr_description = ''email must match pattern'',
                  rr_status = FAIL,
                  rr_severity = ''error'',
                  rr_message = ''Field '' @ CHR 0x27 # ''email'' @ CHR 0x27 #
                               '' has invalid format: '' @ [CHR 0x27, CHR ''x'', CHR 0x27],
                  rr_context = [] \<rparr>"
          AssertionError "[]" "[]" "[]"]
    portal_field_precedence
      [of plain_builtins "''country''" country_empty_set "[(''country'', JStr ''AE'')]"
          "Some \<lparr> rr_rule_id = ''PORTAL_FIELD_OK::country'',
                  rr_description = ''country basic validation'',
                  rr_status = PASS,
                  rr_severity = ''warning'',
                  rr_message = ''Field '' @ CHR 0x27 # ''country'' @ CHR 0x27 #
                               '' passed basic validation.'',
                  rr_context = [] \<rparr>"
          AssertionError "[]" "[]" "[]"]
    email_wrong_pattern email_wrong_pattern_checks country_empty_set_passes
    country_empty_set_checks
  by simp

text \<open>
  Where the claim as stated fails. The field \<open>country\<close> is configured with the empty list
  of allowed values and has the value \<open>AE\<close>. Read as the spec words it, the allowed-values
  check is configured and \<open>AE\<close> is not a member, so the first failing check is the
  allowed-values check and the result should be the FAIL \<open>PORTAL_FIELD_IN_SET::country\<close>;
  the code skips the check and returns the PASS \<open>PORTAL_FIELD_OK::country\<close>.
\<close>

theorem portal_field_precedence_counterexample:
  "pf_allowed_values country_empty_set = Some [] \<and>
   find (spec_check_fails plain_builtins country_empty_set
           (dict_get [(''country'', JStr ''AE'')] ''country'')) spec_precedence =
     Some AllowedValues \<and>
   (\<exists>r. validate_portal_field plain_builtins ''country'' country_empty_set
          [(''country'', JStr ''AE'')] = Inr (Some r) \<and>
        rr_rule_id r = ''PORTAL_FIELD_OK::country'' \<and> rr_status r = PASS \<and>
        \<not> spec_portal_outcome ''country'' country_empty_set (Some AllowedValues) (Some r))"
  using country_empty_set_passes country_empty_set_checks
  by (simp add: spec_portal_outcome_def)

text \<open>
  Claim C7. When the portal document has no entry for the field, or has \<open>None\<close> or the
  empty string there: a field that is not required gets no result (the evaluator returns
  \<open>None\<close> and the run goes on with its list of results unchanged), and a required field
  gets exactly one result, a FAIL with rule id \<open>PORTAL_FIELD_REQUIRED::f\<close> and severity
  error, which the run appends.
\<close>

theorem optional_empty_field:
  assumes "map_of portal_json f = None \<or> map_of portal_json f = Some JNull \<or>
           map_of portal_json f = Some (JStr [])"
  shows "(\<not> pf_required cfg \<longrightarrow>
            validate_portal_field B f cfg portal_json = Inr None \<and>
            portal_loop B ((f, cfg) # rest) portal_json acc = portal_loop B rest portal_json acc) \<and>
         (pf_required cfg \<longrightarrow>
            (\<exists>r. validate_portal_field B f cfg portal_json = Inr (Some r) \<and>
                 rr_rule_id r = ''PORTAL_FIELD_REQUIRED::'' @ f \<and>
                 rr_severity r = ''error'' \<and> rr_status r = FAIL \<and>
                 portal_loop B ((f, cfg) # rest) portal_json acc =
                   portal_loop B rest portal_json (acc @ [r])))"
proof -
  from assms have empty: "is_none (dict_get portal_json f) \<or> is_empty_str (dict_get portal_json f)"
    by (auto simp: dict_get_def)
  show ?thesis
    by (simp add: validate_portal_field_empty [OF empty])
qed

theorem optional_empty_field_witness:
  "map_of [(''email'', JStr [])] ''email'' = Some (JStr []) \<and>
   validate_portal_field plain_builtins ''email'' email_optional [(''email'', JStr [])] = Inr None \<and>
   portal_loop plain_builtins [(''email'', email_optional)] [(''email'', JStr [])] [] = Inr [] \<and>
   map_of ([] :: pydict) ''email'' = None \<and>
   (\<exists>r. validate_portal_field plain_builtins ''email'' email_required [] = Inr (Some r) \<and>
        rr_rule_id r = ''PORTAL_FIELD_REQUIRED::email'' \<and> rr_severity r = ''error'' \<and>
        rr_status r = FAIL \<and>
        portal_loop plain_builtins [(''email'', email_required)] [] [] = Inr [r])"
  using optional_empty_field
      [of "[(''email'', JStr [])]" "''email''" email_optional plain_builtins "[]" "[]"]
    optional_empty_field [of "[]" "''email''" email_required plain_builtins "[]" "[]"]
  by (simp add: email_optional_def email_required_def)

section \<open>The dispatcher\<close>

lemma result_of_sel [simp]:
  "rr_status (result_of rule st msg ctx) = st"
  "rr_rule_id (result_of rule st msg ctx) = cr_id rule"
  "rr_description (result_of rule st msg ctx) = cr_description rule"
  "rr_severity (result_of rule st msg ctx) = cr_severity rule"
  "rr_message (result_of rule st msg ctx) = msg"
  "rr_context (result_of rule st msg ctx) = ctx"
  by (simp_all add: result_of_def)

lemma rule_equality_status:
  assumes "rule_equality B rule portal_json docs_by_type = Inr r"
  shows "rr_status r = PASS \<or> rr_status r = FAIL"
  using assms [symmetric] unfolding rule_equality_def
  by (simp split: option.splits sum.splits prod.splits if_splits)

lemma rule_in_set_status:
  assumes "rule_in_set B rule portal_json docs_by_type = Inr r"
  shows "rr_status r = PASS \<or> rr_status r = FAIL"
  using assms [symmetric] unfolding rule_in_set_def Let_def
  by (simp split: option.splits sum.splits prod.splits if_splits)

lemma rule_regex_status:
  assumes "rule_regex B rule portal_json docs_by_type = Inr r"
  shows "rr_status r = PASS \<or> rr_status r = FAIL"
  using assms [symmetric] unfolding rule_regex_def Let_def
  by (simp split: option.splits sum.splits prod.splits if_splits)

lemma rule_date_within_year_status:
  assumes "rule_date_within_year B now_year rule portal_json docs_by_type = Inr r"
  shows "rr_status r = PASS \<or> rr_status r = FAIL"
  using assms [symmetric] unfolding rule_date_within_year_def Let_def
  by (simp split: option.splits sum.splits prod.splits if_splits py_exception.splits)

lemma rule_page_count_status:
  assumes "rule_page_count B rule portal_json docs_by_type = Inr r"
  shows "rr_status r = PASS \<or> rr_status r = FAIL"
  using assms [symmetric] unfolding rule_page_count_def Let_def
  by (simp split: option.splits sum.splits prod.splits if_splits)

lemma rule_flags_match_status:
  assumes "rule_flags_match B rule portal_json docs_by_type = Inr r"
  shows "rr_status r = PASS \<or> rr_status r = FAIL"
  using assms [symmetric] unfolding rule_flags_match_def Let_def
  by (simp split: option.splits sum.splits prod.splits if_splits)


lemma apply_rule_try_cases:
  "apply_rule_try B now_year rule portal_json docs_by_type = rule_equality B rule portal_json docs_by_type \<or>
   apply_rule_try B now_year rule portal_json docs_by_type = rule_in_set B rule portal_json docs_by_type \<or>
   apply_rule_try B now_year rule portal_json docs_by_type = rule_regex B rule portal_json docs_by_type \<or>
   apply_rule_try B now_year rule portal_json docs_by_type =
     rule_date_within_year B now_year rule portal_json docs_by_type \<or>
   apply_rule_try B now_year rule portal_json docs_by_type = rule_page_count B rule portal_json docs_by_type \<or>
   apply_rule_try B now_year rule portal_json docs_by_type = rule_flags_match B rule portal_json docs_by_type \<or>
   apply_rule_try B now_year rule portal_json docs_by_type =
     Inr (result_of rule SKIP (''Unknown rule_type '' @ repr_str B (cr_rule_type rule)) [])"
  unfolding apply_rule_try_def by simp

lemma apply_rule_try_status:
  assumes "apply_rule_try B now_year rule portal_json docs_by_type = Inr r"
  shows "rr_status r = PASS \<or> rr_status r = FAIL \<or> rr_status r = SKIP"
  using apply_rule_try_cases [of B now_year rule portal_json docs_by_type]
proof (elim disjE)
  assume "apply_rule_try B now_year rule portal_json docs_by_type =
          rule_equality B rule portal_json docs_by_type"
  with assms have "rule_equality B rule portal_json docs_by_type = Inr r" by simp
  from rule_equality_status [OF this] show ?thesis by blast
next
  assume "apply_rule_try B now_year rule portal_json docs_by_type =
          rule_in_set B rule portal_json docs_by_type"
  with assms have "rule_in_set B rule portal_json docs_by_type = Inr r" by simp
  from rule_in_set_status [OF this] show ?thesis by blast
next
  assume "apply_rule_try B now_year rule portal_json docs_by_type =
          rule_regex B rule portal_json docs_by_type"
  with assms have "rule_regex B rule portal_json docs_by_type = Inr r" by simp
  from rule_regex_status [OF this] show ?thesis by blast
next
  assume "apply_rule_try B now_year rule portal_json docs_by_type =
          rule_date_within_year B now_year rule portal_json docs_by_type"
  with assms have "rule_date_within_year B now_year rule portal_json docs_by_type = Inr r" by simp
  from rule_date_within_year_status [OF this] show ?thesis by blast
next
  assume "apply_rule_try B now_year rule portal_json docs_by_type =
          rule_page_count B rule portal_json docs_by_type"
  with assms have "rule_page_count B rule portal_json docs_by_type = Inr r" by simp
  from rule_page_count_status [OF this] show ?thesis by blast
next
  assume "apply_rule_try B now_year rule portal_json docs_by_type =
          rule_flags_match B rule portal_json docs_by_type"
  with assms have "rule_flags_match B rule portal_json docs_by_type = Inr r" by simp
  from rule_flags_match_status [OF this] show ?thesis by blast
next
  assume "apply_rule_try B now_year rule portal_json docs_by_type =
          Inr (result_of rule SKIP (''Unknown rule_type '' @ repr_str B (cr_rule_type rule)) [])"
  with assms have "r = result_of rule SKIP (''Unknown rule_type '' @ repr_str B (cr_rule_type rule)) []"
    by simp
  then show ?thesis by simp
qed

lemma apply_rule_cases:
  "apply_rule B now_year rule portal_json docs_by_type =
     Inr (case apply_rule_try B now_year rule portal_json docs_by_type of
            Inl exc \<Rightarrow> result_of rule FAIL (''Exception while applying rule: '' @ exc_str exc) []
          | Inr res \<Rightarrow> res)"
  by (simp add: apply_rule_def split: sum.splits)

lemma apply_rule_status:
  assumes "apply_rule B now_year rule portal_json docs_by_type = Inr r"
  shows "rr_status r = PASS \<or> rr_status r = FAIL \<or> rr_status r = SKIP"
proof (cases "apply_rule_try B now_year rule portal_json docs_by_type")
  case (Inl exc)
  with assms [symmetric] show ?thesis by (simp add: apply_rule_cases)
next
  case (Inr res)
  with assms have "r = res" by (simp add: apply_rule_cases)
  with apply_rule_try_status [OF Inr] show ?thesis by simp
qed

lemma rules_loop_map:
  "rules_loop B now_year rules portal_json docs_by_type acc =
     Inr (acc @ map (\<lambda>rule. case apply_rule_try B now_year rule portal_json docs_by_type of
            Inl exc \<Rightarrow> result_of rule FAIL (''Exception while applying rule: '' @ exc_str exc) []
          | Inr res \<Rightarrow> res) rules)"
  by (induction rules arbitrary: acc) (simp_all add: apply_rule_cases)


lemma validate_portal_field_status:
  assumes "validate_portal_field B f cfg portal_json = Inr (Some r)"
  shows "rr_status r = PASS \<or> rr_status r = FAIL"
  using assms [symmetric] unfolding validate_portal_field_def Let_def
  by (simp split: option.splits sum.splits if_splits)

lemma malformed_rule_raises:
  assumes "cr_rule_type rule = ''equality'' \<and> (cr_left rule = None \<or> cr_right rule = None) \<or>
     (cr_rule_type rule = ''in_set'' \<or> cr_rule_type rule = ''regex'' \<or>
      cr_rule_type rule = ''date_within_year'' \<or> cr_rule_type rule = ''page_count_between'' \<or>
      cr_rule_type rule = ''flags_match'') \<and> cr_target rule = None"
  shows "apply_rule_try B now_year rule portal_json docs_by_type = Inl AssertionError"
  using assms
  apply (elim disjE conjE)
        apply (simp_all add: apply_rule_try_def rule_equality_def rule_in_set_def rule_regex_def
    rule_date_within_year_def rule_page_count_def rule_flags_match_def split: option.splits)
  done

lemma resolve_field_no_doc_type:
  assumes "fr_source ref = ''doc''" and "\<not> opt_str_truthy (fr_doc_type ref)"
  shows "resolve_field ref portal_json docs_by_type =
           Inl (ValueError ''doc_type is required for doc source'')"
  using assms by (simp add: resolve_field_def opt_str_truthy_def split: option.splits)

lemma cr_number_rule_result:
  "apply_rule_try plain_builtins 2025 cr_number_rule cr_portal cr_docs =
     Inr (result_of cr_number_rule PASS
            ''Values match for portal.cr_number and moc_certificate.cr_number''
            [(''left'', ''123''), (''right'', '' 123 '')])"
  by (simp add: apply_rule_try_def rule_equality_def cr_number_rule_def bare_rule_def
        portal_ref_def doc_ref_def cr_portal_def cr_docs_def resolve_field_def dict_get_def
        docs_get_def doc_fields_def attr_get_def py_str_def py_strip_def py_isspace_def)

lemma no_target_rule_result:
  "apply_rule_try plain_builtins 2025 no_target_rule cr_portal cr_docs = Inl AssertionError"
  by (simp add: apply_rule_try_def rule_in_set_def no_target_rule_def bare_rule_def)

lemma no_doc_type_rule_result:
  "apply_rule_try plain_builtins 2025 no_doc_type_rule cr_portal cr_docs =
     Inl (ValueError ''doc_type is required for doc source'')"
  by (simp add: apply_rule_try_def rule_equality_def no_doc_type_rule_def bare_rule_def
        portal_ref_def resolve_field_def cr_portal_def dict_get_def)

text \<open>
  Claim C2. For every rule, portal document and document mapping, \<open>_apply_rule\<close> returns
  one result and raises nothing: the result is the evaluator's own when the \<open>try\<close> block
  returns, and when the block raises it is a FAIL with the rule's id, description and
  severity whose message is \<open>Exception while applying rule: \<close> followed by the
  exception's text. A rule without the FieldRef its type needs fails its assertion, and a
  doc-source FieldRef without \<open>doc_type\<close> makes the resolver raise; both end as such a
  FAIL. The loop over the rules therefore returns one result per rule, in order, each the
  result of \<open>_apply_rule\<close> on that rule, whatever the other rules did.
\<close>

theorem dispatcher_never_raises:
  "(\<exists>res. apply_rule B now_year rule portal_json docs_by_type = Inr res \<and>
      (case apply_rule_try B now_year rule portal_json docs_by_type of
         Inr r \<Rightarrow> res = r
       | Inl exc \<Rightarrow>
           rr_status res = FAIL \<and>
           rr_message res = ''Exception while applying rule: '' @ exc_str exc \<and>
           rr_rule_id res = cr_id rule \<and> rr_description res = cr_description rule \<and>
           rr_severity res = cr_severity rule \<and> rr_context res = [])) \<and>
   (cr_rule_type rule = ''equality'' \<and> (cr_left rule = None \<or> cr_right rule = None) \<or>
    (cr_rule_type rule = ''in_set'' \<or> cr_rule_type rule = ''regex'' \<or>
     cr_rule_type rule = ''date_within_year'' \<or> cr_rule_type rule = ''page_count_between'' \<or>
     cr_rule_type rule = ''flags_match'') \<and> cr_target rule = None \<longrightarrow>
      (\<exists>res. apply_rule B now_year rule portal_json docs_by_type = Inr res \<and>
            rr_status res = FAIL \<and> rr_message res = ''Exception while applying rule: '')) \<and>
   (fr_source ref = ''doc'' \<and> \<not> opt_str_truthy (fr_doc_type ref) \<longrightarrow>
      resolve_field ref portal_json docs_by_type =
        Inl (ValueError ''doc_type is required for doc source'')) \<and>
   (\<exists>rs. rules_loop B now_year rules portal_json docs_by_type acc = Inr (acc @ rs) \<and>
         length rs = length rules \<and>
         map Inr rs = map (\<lambda>rule. apply_rule B now_year rule portal_json docs_by_type) rules)"
proof (intro conjI impI)
  show "\<exists>res. apply_rule B now_year rule portal_json docs_by_type = Inr res \<and>
      (case apply_rule_try B now_year rule portal_json docs_by_type of
         Inr r \<Rightarrow> res = r
       | Inl exc \<Rightarrow>
           rr_status res = FAIL \<and>
           rr_message res = ''Exception while applying rule: '' @ exc_str exc \<and>
           rr_rule_id res = cr_id rule \<and> rr_description res = cr_description rule \<and>
           rr_severity res = cr_severity rule \<and> rr_context res = [])"
    by (simp add: apply_rule_cases split: sum.splits)
next
  assume "cr_rule_type rule = ''equality'' \<and> (cr_left rule = None \<or> cr_right rule = None) \<or>
    (cr_rule_type rule = ''in_set'' \<or> cr_rule_type rule = ''regex'' \<or>
     cr_rule_type rule = ''date_within_year'' \<or> cr_rule_type rule = ''page_count_between'' \<or>
     cr_rule_type rule = ''flags_match'') \<and> cr_target rule = None"
  then have "apply_rule_try B now_year rule portal_json docs_by_type = Inl AssertionError"
    by (rule malformed_rule_raises)
  then show "\<exists>res. apply_rule B now_year rule portal_json docs_by_type = Inr res \<and>
            rr_status res = FAIL \<and> rr_message res = ''Exception while applying rule: ''"
    by (simp add: apply_rule_cases)
next
  assume "fr_source ref = ''doc'' \<and> \<not> opt_str_truthy (fr_doc_type ref)"
  then show "resolve_field ref portal_json docs_by_type =
        Inl (ValueError ''doc_type is required for doc source'')"
    by (simp add: resolve_field_no_doc_type)
next
  show "\<exists>rs. rules_loop B now_year rules portal_json docs_by_type acc = Inr (acc @ rs) \<and>
         length rs = length rules \<and>
         map Inr rs = map (\<lambda>rule. apply_rule B now_year rule portal_json docs_by_type) rules"
    by (simp add: rules_loop_map apply_rule_cases)
qed

text \<open>
  A run over a rule with no target, a rule whose doc-source FieldRef has no \<open>doc_type\<close>
  and a well-formed equality rule: two FAIL results with the exceptions' messages, then
  the PASS of the third rule.
\<close>

theorem dispatcher_never_raises_witness:
  "rules_loop plain_builtins 2025 [no_target_rule, no_doc_type_rule, cr_number_rule]
     cr_portal cr_docs [] =
     Inr [result_of no_target_rule FAIL ''Exception while applying rule: '' [],
          result_of no_doc_type_rule FAIL
            ''Exception while applying rule: doc_type is required for doc source'' [],
          result_of cr_number_rule PASS
            ''Values match for portal.cr_number and moc_certificate.cr_number''
            [(''left'', ''123''), (''right'', '' 123 '')]] \<and>
   cr_rule_type no_target_rule = ''in_set'' \<and> cr_target no_target_rule = None \<and>
   (\<exists>res. apply_rule plain_builtins 2025 no_target_rule cr_portal cr_docs = Inr res \<and>
          rr_status res = FAIL)"
  using dispatcher_never_raises
      [of plain_builtins 2025 no_target_rule cr_portal cr_docs
          "\<lparr> fr_source = ''doc'', fr_field = ''cr_number'', fr_doc_type = None \<rparr>"
          "[no_target_rule, no_doc_type_rule, cr_number_rule]" "[]"]
    cr_number_rule_result no_target_rule_result no_doc_type_rule_result
  by (simp add: apply_rule_cases no_target_rule_def bare_rule_def)


section \<open>No evaluator produces WARNING\<close>

lemma portal_loop_status:
  assumes "portal_loop B items portal_json acc = Inr rs"
    and "\<forall>r\<in>set acc. rr_status r \<noteq> WARNING"
  shows "\<forall>r\<in>set rs. rr_status r \<noteq> WARNING"
  using assms
proof (induction items arbitrary: acc)
  case Nil
  then show ?case by simp
next
  case (Cons item items)
  obtain f cfg where item: "item = (f, cfg)" by (cases item)
  show ?case
  proof (cases "validate_portal_field B f cfg portal_json")
    case (Inl exc)
    with Cons.prems item show ?thesis by simp
  next
    case (Inr res)
    show ?thesis
    proof (cases res)
      case None
      with Cons.prems item Inr have "portal_loop B items portal_json acc = Inr rs" by simp
      from Cons.IH [OF this Cons.prems(2)] show ?thesis .
    next
      case (Some r)
      with Cons.prems item Inr have loop: "portal_loop B items portal_json (acc @ [r]) = Inr rs"
        by simp
      from Inr Some have "rr_status r = PASS \<or> rr_status r = FAIL"
        by (simp add: validate_portal_field_status)
      with Cons.prems(2) have "\<forall>x\<in>set (acc @ [r]). rr_status x \<noteq> WARNING" by auto
      from Cons.IH [OF loop this] show ?thesis .
    qed
  qed
qed

lemma rules_loop_status:
  assumes "rules_loop B now_year rules portal_json docs_by_type acc = Inr rs"
    and "\<forall>r\<in>set acc. rr_status r \<noteq> WARNING"
  shows "\<forall>r\<in>set rs. rr_status r \<noteq> WARNING"
  using assms
proof (induction rules arbitrary: acc)
  case Nil
  then show ?case by simp
next
  case (Cons rule rules)
  obtain res where res: "apply_rule B now_year rule portal_json docs_by_type = Inr res"
    by (simp add: apply_rule_cases)
  with Cons.prems have loop:
    "rules_loop B now_year rules portal_json docs_by_type (acc @ [res]) = Inr rs"
    by simp
  from apply_rule_status [OF res] Cons.prems(2)
  have "\<forall>x\<in>set (acc @ [res]). rr_status x \<noteq> WARNING" by auto
  from Cons.IH [OF loop this] show ?case .
qed

lemma email_missing_cr_portal:
  "validate_portal_field plain_builtins ''email'' email_required cr_portal =
     Inr (Some \<lparr> rr_rule_id = ''PORTAL_FIELD_REQUIRED::email'',
                 rr_description = ''email is required'', rr_status = FAIL,
                 rr_severity = ''error'',
                 rr_message = ''Field '' @ CHR 0x27 # ''email'' @ CHR 0x27 # '' is missing or empty.'',
                 rr_context = [] \<rparr>)"
proof -
  have "is_none (dict_get cr_portal ''email'') \<or> is_empty_str (dict_get cr_portal ''email'')"
    by (simp add: cr_portal_def dict_get_def)
  from validate_portal_field_empty [OF this] show ?thesis
    by (simp add: email_required_def)
qed

lemma mixed_report:
  "validate plain_builtins 2025 mixed_config cr_portal cr_docs =
     Inr \<lparr> summary_status = FAIL,
           results =
             [\<lparr> rr_rule_id = ''PORTAL_FIELD_REQUIRED::email'',
                rr_description = ''email is required'', rr_status = FAIL,
                rr_severity = ''error'',
                rr_message = ''Field '' @ CHR 0x27 # ''email'' @ CHR 0x27 # '' is missing or empty.'',
                rr_context = [] \<rparr>,
              result_of cr_number_rule PASS
                ''Values match for portal.cr_number and moc_certificate.cr_number''
                [(''left'', ''123''), (''right'', '' 123 '')],
              result_of no_target_rule FAIL ''Exception while applying rule: '' []] \<rparr>"
  by (simp add: validate_def mixed_config_def email_missing_cr_portal
        apply_rule_cases cr_number_rule_result no_target_rule_result aggregate_status_def)

text \<open>
  Claim C8. For every configuration, portal document and document mapping, no result of
  a report that \<open>validate\<close> returns has status WARNING, and the report's summary status is
  PASS or FAIL, never WARNING.
\<close>

theorem no_warning_status:
  "validate B now_year config portal_json docs_by_type = Inr report \<longrightarrow>
     (\<forall>r\<in>set (results report). rr_status r \<noteq> WARNING) \<and>
     summary_status report \<noteq> WARNING \<and>
     (summary_status report = PASS \<or> summary_status report = FAIL)"
proof
  assume run: "validate B now_year config portal_json docs_by_type = Inr report"
  then obtain rs1 where
    l1: "portal_loop B (portal_field_validations config) portal_json [] = Inr rs1" and
    l2: "rules_loop B now_year (cross_source_rules config) portal_json docs_by_type rs1 =
           Inr (results report)"
    by (auto simp: validate_def split: sum.splits)
  from portal_loop_status [OF l1] have "\<forall>r\<in>set rs1. rr_status r \<noteq> WARNING" by simp
  from rules_loop_status [OF l2 this]
  have nw: "\<forall>r\<in>set (results report). rr_status r \<noteq> WARNING" .
  from run have "summary_status report = aggregate_status (results report)"
    by (rule validate_report)
  with nw show "(\<forall>r\<in>set (results report). rr_status r \<noteq> WARNING) \<and>
     summary_status report \<noteq> WARNING \<and>
     (summary_status report = PASS \<or> summary_status report = FAIL)"
    by (simp add: aggregate_status_cases)
qed

theorem no_warning_status_witness:
  "\<exists>report. validate plain_builtins 2025 mixed_config cr_portal cr_docs = Inr report \<and>
      map rr_status (results report) = [FAIL, PASS, FAIL] \<and>
      summary_status report = FAIL"
  using no_warning_status [of plain_builtins 2025 mixed_config cr_portal cr_docs] mixed_report
  by simp


section \<open>The equality rule\<close>

lemma is_none_iff: "is_none v \<longleftrightarrow> v = JNull"
  by (cases v) simp_all

lemma py_strip_decomp:
  "\<exists>a b. s = a @ py_strip s @ b \<and> (\<forall>c\<in>set a. py_isspace c) \<and> (\<forall>c\<in>set b. py_isspace c)"
proof -
  let ?t = "dropWhile py_isspace s"
  let ?a = "takeWhile py_isspace s"
  let ?b = "rev (takeWhile py_isspace (rev ?t))"
  have "rev ?t = takeWhile py_isspace (rev ?t) @ dropWhile py_isspace (rev ?t)" by simp
  then have "?t = rev (dropWhile py_isspace (rev ?t)) @ ?b"
    by (metis rev_append rev_rev_ident)
  then have "s = ?a @ py_strip s @ ?b"
    by (metis py_strip_def takeWhile_dropWhile_id)
  moreover have "\<forall>c\<in>set ?a. py_isspace c" by (auto dest: set_takeWhileD)
  moreover have "\<forall>c\<in>set ?b. py_isspace c" by (auto dest: set_takeWhileD)
  ultimately show ?thesis by blast
qed

lemma py_strip_ends:
  "py_strip s \<noteq> [] \<Longrightarrow> \<not> py_isspace (hd (py_strip s)) \<and> \<not> py_isspace (last (py_strip s))"
proof -
  assume ne: "py_strip s \<noteq> []"
  let ?t = "dropWhile py_isspace s"
  let ?u = "dropWhile py_isspace (rev ?t)"
  from ne have u: "?u \<noteq> []" by (simp add: py_strip_def)
  then have "\<not> py_isspace (hd ?u)" by (rule hd_dropWhile)
  then have l: "\<not> py_isspace (last (py_strip s))"
    using u by (simp add: py_strip_def last_rev)
  have t: "?t \<noteq> []"
  proof
    assume e: "?t = []"
    have "?u = []" unfolding e by simp
    with u show False by contradiction
  qed
  then have h: "\<not> py_isspace (hd ?t)" by (rule hd_dropWhile)
  have "rev ?t = takeWhile py_isspace (rev ?t) @ ?u" by simp
  then have "?t = rev ?u @ rev (takeWhile py_isspace (rev ?t))"
    by (metis rev_append rev_rev_ident)
  with u have "hd ?t = hd (rev ?u)" by (metis hd_append2 rev_is_Nil_conv)
  with h have "\<not> py_isspace (hd (py_strip s))" by (simp add: py_strip_def)
  with l show ?thesis by simp
qed

lemma cr_number_resolved:
  "resolve_field (portal_ref ''cr_number'') cr_portal cr_docs = Inr (JStr ''123'', ''portal.cr_number'') \<and>
   resolve_field (doc_ref ''moc_certificate'' ''cr_number'') cr_portal cr_docs =
     Inr (JStr '' 123 '', ''moc_certificate.cr_number'')"
  by (simp add: portal_ref_def doc_ref_def cr_portal_def cr_docs_def resolve_field_def dict_get_def
        docs_get_def doc_fields_def attr_get_def)

text \<open>
  Claim C5. For an equality rule whose left and right FieldRefs resolve: if either value
  is \<open>None\<close> the result is FAIL and its context holds the two resolved paths; otherwise
  the result is PASS exactly when the two values' string forms are equal after
  \<open>strip()\<close>, else FAIL, and the context holds the two string forms. \<open>py_strip\<close> removes
  whitespace, and nothing else, at both ends (\<open>py_strip_decomp\<close>, \<open>py_strip_ends\<close>).
\<close>

theorem equality_rule:
  assumes "cr_left rule = Some l" and "cr_right rule = Some r"
    and "resolve_field l portal_json docs_by_type = Inr (left_val, left_path)"
    and "resolve_field r portal_json docs_by_type = Inr (right_val, right_path)"
  shows "\<exists>res. rule_equality B rule portal_json docs_by_type = Inr res \<and>
           (cr_rule_type rule = ''equality'' \<longrightarrow>
              apply_rule B now_year rule portal_json docs_by_type = Inr res) \<and>
           (if left_val = JNull \<or> right_val = JNull then
              rr_status res = FAIL \<and>
              rr_context res = [(''left_path'', left_path), (''right_path'', right_path)]
            else
              rr_status res =
                (if py_strip (py_str B left_val) = py_strip (py_str B right_val) then PASS else FAIL) \<and>
              rr_context res = [(''left'', py_str B left_val), (''right'', py_str B right_val)])"
  using assms
  by (simp add: rule_equality_def apply_rule_cases apply_rule_try_def is_none_iff)

text \<open>
  Scenario D of the spec: portal \<open>cr_number\<close> \<open>123\<close> against the certificate's
  \<open>cr_number\<close> \<open>123\<close> between blanks.
\<close>

theorem equality_rule_witness:
  "cr_left cr_number_rule = Some (portal_ref ''cr_number'') \<and>
   cr_right cr_number_rule = Some (doc_ref ''moc_certificate'' ''cr_number'') \<and>
   resolve_field (portal_ref ''cr_number'') cr_portal cr_docs = Inr (JStr ''123'', ''portal.cr_number'') \<and>
   resolve_field (doc_ref ''moc_certificate'' ''cr_number'') cr_portal cr_docs =
     Inr (JStr '' 123 '', ''moc_certificate.cr_number'') \<and>
   (\<exists>res. apply_rule plain_builtins 2025 cr_number_rule cr_portal cr_docs = Inr res \<and>
      rr_status res = PASS \<and> rr_context res = [(''left'', ''123''), (''right'', '' 123 '')])"
  using equality_rule [of cr_number_rule "portal_ref ''cr_number''"
      "doc_ref ''moc_certificate'' ''cr_number''" cr_portal cr_docs "JStr ''123''"
      "''portal.cr_number''" "JStr '' 123 ''" "''moc_certificate.cr_number''" plain_builtins 2025]
    cr_number_resolved
  by (simp add: cr_number_rule_def bare_rule_def py_str_def py_strip_def py_isspace_def) blast

section \<open>The flags rule\<close>

lemma flags_loop_absent:
  assumes "\<forall>flag\<in>set fl. \<not> fe_expected flag"
  shows "flags_loop B (JObj []) fl acc = Inr acc"
  using assms by (induction fl arbitrary: acc) (simp_all add: attr_get_def dict_get_def)

text \<open>
  Claim C10. A \<open>flags_match\<close> rule with a named document type and at least one flag
  expectation, all of them expecting \<open>False\<close>, passes when the document type is absent
  from the mapping: the absent document is the empty dict, which is its own field
  namespace; every flag's value there is \<open>None\<close>, whose truth value is \<open>False\<close>; no
  mismatch is recorded.
\<close>

theorem flags_all_false_absent_doc:
  assumes "cr_rule_type rule = ''flags_match''"
    and "cr_target rule = Some tgt" and "fr_doc_type tgt = Some doc_type" and "doc_type \<noteq> []"
    and "cr_flags rule = Some fl" and "fl \<noteq> []"
    and "\<forall>flag\<in>set fl. \<not> fe_expected flag"
    and "map_of docs_by_type doc_type = None"
  shows "doc_fields (docs_get docs_by_type doc_type) = JObj [] \<and>
         (\<forall>flag\<in>set fl. attr_get (JObj []) (fe_field flag) = Inr JNull \<and> \<not> py_truthy B JNull) \<and>
         flags_loop B (JObj []) fl [] = Inr [] \<and>
         rule_flags_match B rule portal_json docs_by_type =
           Inr (result_of rule PASS (''All required flags present for '' @ doc_type) []) \<and>
         apply_rule B now_year rule portal_json docs_by_type =
           Inr (result_of rule PASS (''All required flags present for '' @ doc_type) [])"
proof -
  from assms(8) have fields: "doc_fields (docs_get docs_by_type doc_type) = JObj []"
    by (simp add: docs_get_def doc_fields_def)
  from assms(7) have loop: "flags_loop B (JObj []) fl [] = Inr []"
    by (rule flags_loop_absent)
  from assms(2-6) fields loop
  have res: "rule_flags_match B rule portal_json docs_by_type =
           Inr (result_of rule PASS (''All required flags present for '' @ doc_type) [])"
    by (simp add: rule_flags_match_def opt_list_truthy_def opt_str_truthy_def)
  with assms(1) have "apply_rule B now_year rule portal_json docs_by_type =
           Inr (result_of rule PASS (''All required flags present for '' @ doc_type) [])"
    by (simp add: apply_rule_cases apply_rule_try_def)
  with fields loop res show ?thesis
    by (simp add: attr_get_def dict_get_def)
qed

theorem flags_all_false_absent_doc_witness:
  "cr_rule_type nda_flags_rule = ''flags_match'' \<and>
   map_of ([] :: (string \<times> pydict) list) ''nda'' = None \<and>
   cr_flags nda_flags_rule = Some [\<lparr> fe_field = ''has_signature'', fe_expected = False \<rparr>,
                                  \<lparr> fe_field = ''has_stamp'', fe_expected = False \<rparr>] \<and>
   apply_rule plain_builtins 2025 nda_flags_rule [] [] =
     Inr (result_of nda_flags_rule PASS ''All required flags present for nda'' [])"
  using flags_all_false_absent_doc [of nda_flags_rule "doc_ref ''nda'' ''flags''" "''nda''"
      "[\<lparr> fe_field = ''has_signature'', fe_expected = False \<rparr>,
        \<lparr> fe_field = ''has_stamp'', fe_expected = False \<rparr>]" "[]" plain_builtins "[]" 2025]
  by (simp add: nda_flags_rule_def bare_rule_def doc_ref_def)


section \<open>The page count rule\<close>

lemma show_nat_digit: "n < 10 \<Longrightarrow> show_nat n = [digit_char n]"
  by (simp add: show_nat.simps)

lemma page_rule_facts:
  "cr_target page_rule = Some (doc_ref ''nda'' ''pages'') \<and>
   fr_doc_type (doc_ref ''nda'' ''pages'') = Some ''nda'' \<and>
   cr_min_pages page_rule = Some 1 \<and> cr_max_pages page_rule = Some 5"
  by (simp add: page_rule_def bare_rule_def doc_ref_def)

lemma empty_pages_falls_back:
  "rule_page_count plain_builtins page_rule []
     [(''nda'', [(''pages'', JList []), (''page_count'', JInt 5)])] =
     Inr (result_of page_rule PASS ''nda has 5 pages (within [1, 5])'' [])"
  by (simp add: rule_page_count_def page_rule_def bare_rule_def doc_ref_def opt_str_truthy_def
        docs_get_def dict_get_def py_or_def py_int_def opt_int_or_def show_int_def show_nat_digit
        digit_char_def)

lemma int_pages_is_cast:
  "rule_page_count plain_builtins page_rule [] [(''nda'', [(''pages'', JInt 3)])] =
     Inr (result_of page_rule PASS ''nda has 3 pages (within [1, 5])'' [])"
  by (simp add: rule_page_count_def page_rule_def bare_rule_def doc_ref_def opt_str_truthy_def
        docs_get_def dict_get_def py_or_def py_int_def opt_int_or_def show_int_def show_nat_digit
        digit_char_def)

lemma zero_max_pages_is_unbounded:
  "\<exists>res. rule_page_count plain_builtins zero_pages_rule []
            [(''nda'', [(''pages'', JList [JInt 1, JInt 2, JInt 3])])] = Inr res \<and>
         rr_status res = PASS"
  by (simp add: rule_page_count_def zero_pages_rule_def page_rule_def bare_rule_def doc_ref_def
        opt_str_truthy_def docs_get_def dict_get_def py_or_def opt_int_or_def)

text \<open>
  Claim C4, as the code has it. A \<open>page_count_between\<close> rule whose target has no
  \<open>doc_type\<close> (or an empty one) raises \<open>ValueError\<close>. Otherwise the value counted is
  \<open>pages\<close> if that entry is truthy and \<open>page_count\<close> if it is not (absent, \<open>None\<close>, or an
  empty list); the count is its length if it is a list, else its integer cast, 0 if it is
  falsy; a cast that raises ends the evaluator. The result is PASS iff
  \<open>min_pages\<close> (0 when unset) \<open>\<le>\<close> count \<open>\<le>\<close> \<open>max_pages\<close> (\<open>10^9\<close> when unset or 0), else FAIL.
\<close>

theorem page_count_between_rule:
  "(cr_target rule = Some tgt \<and> (fr_doc_type tgt = None \<or> fr_doc_type tgt = Some []) \<longrightarrow>
      rule_page_count B rule portal_json docs_by_type =
        Inl (ValueError ''page_count_between rule requires target.doc_type'')) \<and>
   (cr_target rule = Some tgt \<and> fr_doc_type tgt = Some doc_type \<and> doc_type \<noteq> [] \<longrightarrow>
      (let doc = docs_get docs_by_type doc_type;
           pages = dict_get doc ''pages'';
           chosen = (if py_truthy B pages then pages else dict_get doc ''page_count'');
           lo = (case cr_min_pages rule of None \<Rightarrow> 0 | Some n \<Rightarrow> n);
           hi = (case cr_max_pages rule of None \<Rightarrow> 10 ^ 9 | Some n \<Rightarrow> if n = 0 then 10 ^ 9 else n)
       in case (case chosen of
                  JList xs \<Rightarrow> Inr (int (length xs))
                | _ \<Rightarrow> if py_truthy B chosen then py_int B chosen else Inr 0) of
            Inl exc \<Rightarrow> rule_page_count B rule portal_json docs_by_type = Inl exc
          | Inr n \<Rightarrow>
              (\<exists>res. rule_page_count B rule portal_json docs_by_type = Inr res \<and>
                    rr_status res = (if lo \<le> n \<and> n \<le> hi then PASS else FAIL))))"
proof (intro conjI impI)
  assume "cr_target rule = Some tgt \<and> (fr_doc_type tgt = None \<or> fr_doc_type tgt = Some [])"
  then show "rule_page_count B rule portal_json docs_by_type =
        Inl (ValueError ''page_count_between rule requires target.doc_type'')"
    by (auto simp: rule_page_count_def opt_str_truthy_def)
next
  assume a: "cr_target rule = Some tgt \<and> fr_doc_type tgt = Some doc_type \<and> doc_type \<noteq> []"
  then have t: "cr_target rule = Some tgt" and d: "fr_doc_type tgt = Some doc_type"
    and ne: "doc_type \<noteq> []"
    by simp_all
  define doc where "doc = docs_get docs_by_type doc_type"
  define pages where "pages = dict_get doc ''pages''"
  define chosen where "chosen = py_or B pages (dict_get doc ''page_count'')"
  define cnt where "cnt = (case chosen of
                  JList xs \<Rightarrow> Inr (int (length xs))
                | _ \<Rightarrow> py_int B (py_or B chosen (JInt 0)))"
  have lo: "opt_int_or (cr_min_pages rule) 0 = (case cr_min_pages rule of None \<Rightarrow> 0 | Some n \<Rightarrow> n)"
    by (simp add: opt_int_or_def split: option.splits)
  have hi: "opt_int_or (cr_max_pages rule) (10 ^ 9) =
      (case cr_max_pages rule of None \<Rightarrow> 10 ^ 9 | Some n \<Rightarrow> if n = 0 then 10 ^ 9 else n)"
    by (simp add: opt_int_or_def split: option.splits)
  have chosen_if: "(if py_truthy B pages then pages else dict_get doc ''page_count'') = chosen"
    by (simp add: chosen_def py_or_def)
  have cnt_eq: "(case chosen of
                  JList xs \<Rightarrow> Inr (int (length xs))
                | _ \<Rightarrow> if py_truthy B chosen then py_int B chosen else Inr 0) = cnt"
    unfolding cnt_def by (cases chosen) (simp_all add: py_or_def py_int_def)
  have code: "rule_page_count B rule portal_json docs_by_type =
      (case cnt of
         Inl exc \<Rightarrow> Inl exc
       | Inr n \<Rightarrow>
           (if opt_int_or (cr_min_pages rule) 0 \<le> n \<and> n \<le> opt_int_or (cr_max_pages rule) (10 ^ 9)
            then Inr (result_of rule PASS
                               (doc_type @ '' has '' @ show_int n @ '' pages (within ['' @
                                show_int (opt_int_or (cr_min_pages rule) 0) @ '', '' @
                                show_int (opt_int_or (cr_max_pages rule) (10 ^ 9)) @ ''])'') [])
            else Inr (result_of rule FAIL
                               (doc_type @ '' has '' @ show_int n @
                                '' pages (expected between '' @
                                show_int (opt_int_or (cr_min_pages rule) 0) @ '' and '' @
                                show_int (opt_int_or (cr_max_pages rule) (10 ^ 9)) @ '')'') [])))"
    unfolding rule_page_count_def Let_def cnt_def chosen_def pages_def doc_def
    by (simp add: t d ne opt_str_truthy_def cong: sum.case_cong json.case_cong if_cong)
  show "(let doc = docs_get docs_by_type doc_type;
           pages = dict_get doc ''pages'';
           chosen = (if py_truthy B pages then pages else dict_get doc ''page_count'');
           lo = (case cr_min_pages rule of None \<Rightarrow> 0 | Some n \<Rightarrow> n);
           hi = (case cr_max_pages rule of None \<Rightarrow> 10 ^ 9 | Some n \<Rightarrow> if n = 0 then 10 ^ 9 else n)
       in case (case chosen of
                  JList xs \<Rightarrow> Inr (int (length xs))
                | _ \<Rightarrow> if py_truthy B chosen then py_int B chosen else Inr 0) of
            Inl exc \<Rightarrow> rule_page_count B rule portal_json docs_by_type = Inl exc
          | Inr n \<Rightarrow>
              (\<exists>res. rule_page_count B rule portal_json docs_by_type = Inr res \<and>
                    rr_status res = (if lo \<le> n \<and> n \<le> hi then PASS else FAIL)))"
    unfolding Let_def doc_def [symmetric] pages_def [symmetric] chosen_if cnt_eq code
      lo [symmetric] hi [symmetric]
    by (simp split: sum.splits)
qed


text \<open>
  Scenario E of the spec: three pages pass, the empty document fails; and a target
  without \<open>doc_type\<close> raises.
\<close>

theorem page_count_between_rule_witness:
  "cr_target page_rule = Some (doc_ref ''nda'' ''pages'') \<and>
   fr_doc_type (doc_ref ''nda'' ''pages'') = Some ''nda'' \<and>
   (\<exists>res. rule_page_count plain_builtins page_rule []
            [(''nda'', [(''pages'', JList [JInt 1, JInt 2, JInt 3])])] = Inr res \<and>
          rr_status res = PASS) \<and>
   (\<exists>res. rule_page_count plain_builtins page_rule [] [(''nda'', [])] = Inr res \<and>
          rr_status res = FAIL) \<and>
   fr_doc_type (portal_ref ''pages'') = None \<and>
   rule_page_count plain_builtins (page_rule \<lparr> cr_target := Some (portal_ref ''pages'') \<rparr>) [] [] =
     Inl (ValueError ''page_count_between rule requires target.doc_type'')"
  using page_count_between_rule [of page_rule "doc_ref ''nda'' ''pages''" plain_builtins "[]"
      "[(''nda'', [(''pages'', JList [JInt 1, JInt 2, JInt 3])])]" "''nda''"]
    page_count_between_rule [of page_rule "doc_ref ''nda'' ''pages''" plain_builtins "[]"
      "[(''nda'', [])]" "''nda''"]
    page_count_between_rule [of "page_rule \<lparr> cr_target := Some (portal_ref ''pages'') \<rparr>"
      "portal_ref ''pages''" plain_builtins "[]" "[]" "''nda''"]
  by (simp add: page_rule_def bare_rule_def doc_ref_def portal_ref_def docs_get_def dict_get_def)


text \<open>
  Where the claim as stated fails. With \<open>pages = []\<close> and \<open>page_count = 5\<close> the claim
  counts the list, 0 pages, below the minimum of 1; the code counts 5 and passes. With
  \<open>pages = 3\<close>, not a list, the claim falls to the absent \<open>page_count\<close>, 0; the code casts
  3 and passes. With \<open>max_pages = 0\<close> a document of three pages passes.
\<close>

theorem page_count_between_counterexample:
  "rule_page_count plain_builtins page_rule []
     [(''nda'', [(''pages'', JList []), (''page_count'', JInt 5)])] =
     Inr (result_of page_rule PASS ''nda has 5 pages (within [1, 5])'' []) \<and>
   spec_page_count plain_builtins [(''pages'', JList []), (''page_count'', JInt 5)] = Inr 0 \<and>
   rule_page_count plain_builtins page_rule [] [(''nda'', [(''pages'', JInt 3)])] =
     Inr (result_of page_rule PASS ''nda has 3 pages (within [1, 5])'' []) \<and>
   spec_page_count plain_builtins [(''pages'', JInt 3)] = Inr 0 \<and>
   cr_min_pages page_rule = Some 1 \<and>
   (\<exists>res. rule_page_count plain_builtins zero_pages_rule []
            [(''nda'', [(''pages'', JList [JInt 1, JInt 2, JInt 3])])] = Inr res \<and>
          rr_status res = PASS) \<and>
   cr_max_pages zero_pages_rule = Some 0"
  using empty_pages_falls_back int_pages_is_cast zero_max_pages_is_unbounded
  by (simp add: spec_page_count_def dict_get_def page_rule_def zero_pages_rule_def bare_rule_def)


section \<open>The date rule\<close>

lemma parse_date_loop_find:
  "parse_date_loop v fmts =
     (case find (\<lambda>fmt. strptime v fmt \<noteq> None) fmts of
        None \<Rightarrow> None
      | Some fmt \<Rightarrow> strptime v fmt)"
  by (induction fmts) (auto split: option.splits)

lemma find_Some_sat: "find P xs = Some x \<Longrightarrow> P x"
  by (induction xs) (auto split: if_splits)

lemma opt_int_or_zero: "opt_int_or x 0 = (case x of None \<Rightarrow> 0 | Some d \<Rightarrow> d)"
  by (simp add: opt_int_or_def split: option.splits)


lemma strptime_iso:
  "strptime ''2020-01-01'' ''%Y-%m-%d'' = Some \<lparr> date_year = 2020, date_month = 1, date_day = 1 \<rparr>"
  by code_simp

lemma strptime_zero:
  "strptime ''0'' ''%Y-%m-%d'' = None \<and> strptime ''0'' ''%d/%m/%Y'' = None \<and>
   strptime ''0'' ''%d-%m-%Y'' = None \<and> strptime ''0'' ''%d.%m.%Y'' = None"
  by code_simp

lemma strptime_slash:
  "strptime ''1/2/2024'' ''%Y-%m-%d'' = None \<and>
   strptime ''1/2/2024'' ''%d/%m/%Y'' = Some \<lparr> date_year = 2024, date_month = 2, date_day = 1 \<rparr>"
  by code_simp

lemma strptime_refuses:
  "strptime ''2020-13-01'' ''%Y-%m-%d'' = None \<and>
   strptime ''2020-12-311'' ''%Y-%m-%d'' = None \<and>
   strptime ''29-02-2023'' ''%d-%m-%Y'' = None \<and>
   strptime ''29-02-2024'' ''%d-%m-%Y'' = Some \<lparr> date_year = 2024, date_month = 2, date_day = 29 \<rparr>"
  by code_simp

lemma str_of_zero: "py_str plain_builtins (JInt 0) = ''0''"
  by (simp add: py_str_def show_int_def show_nat_digit digit_char_def)

lemma strip_examples:
  "py_strip ''0'' = ''0'' \<and> py_strip ''2020-01-01'' = ''2020-01-01'' \<and>
   py_strip '' 1/2/2024 '' = ''1/2/2024''"
  by (simp add: py_strip_def py_isspace_def)

lemma date_rule_target:
  "cr_target date_rule = Some (portal_ref ''d'') \<and> cr_year_delta date_rule = Some 1 \<and>
   resolve_field (portal_ref ''d'') [(''d'', v)] [] = Inr (v, ''portal.d'')"
  by (simp add: date_rule_def bare_rule_def portal_ref_def resolve_field_def dict_get_def)

text \<open>
  Claim C6, as the code has it. For a \<open>date_within_year\<close> rule whose target resolves: a
  value that is missing or falsy (\<open>None\<close>, the empty string, 0, \<open>False\<close>, an empty list
  or object) gives FAIL with the message that the path is missing. Otherwise the string
  form of the value, stripped, is parsed with the formats \<open>%Y-%m-%d\<close>, \<open>%d/%m/%Y\<close>,
  \<open>%d-%m-%Y\<close>, \<open>%d.%m.%Y\<close> in this order, the first format that parses giving the date;
  if none parses the result is FAIL with the parse-error message; otherwise the result is
  PASS iff the current year and the parsed year differ by at most \<open>year_delta\<close> (0 when
  unset), else FAIL.
\<close>

theorem date_within_year_rule:
  assumes "cr_target rule = Some tgt"
    and "resolve_field tgt portal_json docs_by_type = Inr (v, path)"
  shows "\<exists>res. rule_date_within_year B now_year rule portal_json docs_by_type = Inr res \<and>
     (if \<not> py_truthy B v then
        rr_status res = FAIL \<and> rr_message res = path @ '' is missing''
      else
        (case find (\<lambda>fmt. strptime (py_strip (py_str B v)) fmt \<noteq> None)
                [''%Y-%m-%d'', ''%d/%m/%Y'', ''%d-%m-%Y'', ''%d.%m.%Y''] of
           None \<Rightarrow>
             rr_status res = FAIL \<and>
             rr_message res = path @ '' date parse error: Unsupported date format '' @
                              repr_str B (py_strip (py_str B v))
         | Some fmt \<Rightarrow>
             (\<exists>dt. strptime (py_strip (py_str B v)) fmt = Some dt \<and>
                   rr_status res =
                     (if \<bar>now_year - date_year dt\<bar> \<le>
                         (case cr_year_delta rule of None \<Rightarrow> 0 | Some d \<Rightarrow> d)
                      then PASS else FAIL))))"
proof (cases "py_truthy B v")
  case False
  with assms show ?thesis by (simp add: rule_date_within_year_def)
next
  case True
  define s where "s = py_strip (py_str B v)"
  define F where "F = find (\<lambda>fmt. strptime s fmt \<noteq> None)
                        [''%Y-%m-%d'', ''%d/%m/%Y'', ''%d-%m-%Y'', ''%d.%m.%Y'']"
  have loop: "parse_date_loop s date_formats = (case F of None \<Rightarrow> None | Some fmt \<Rightarrow> strptime s fmt)"
    unfolding F_def date_formats_def by (rule parse_date_loop_find)
  have goal: "\<exists>res. rule_date_within_year B now_year rule portal_json docs_by_type = Inr res \<and>
        (case F of
           None \<Rightarrow>
             rr_status res = FAIL \<and>
             rr_message res = path @ '' date parse error: Unsupported date format '' @ repr_str B s
         | Some fmt \<Rightarrow>
             (\<exists>dt. strptime s fmt = Some dt \<and>
                   rr_status res =
                     (if \<bar>now_year - date_year dt\<bar> \<le>
                         (case cr_year_delta rule of None \<Rightarrow> 0 | Some d \<Rightarrow> d)
                      then PASS else FAIL)))"
  proof (cases F)
    case None
    with loop have "parse_date B (py_str B v) =
                 Inl (ValueError (''Unsupported date format '' @ repr_str B s))"
      by (simp add: parse_date_def s_def)
    with assms True None show ?thesis
      by (simp add: rule_date_within_year_def)
  next
    case (Some fmt)
    then have "strptime s fmt \<noteq> None"
      unfolding F_def by (rule find_Some_sat)
    then obtain dt where dt: "strptime s fmt = Some dt" by blast
    with loop Some have "parse_date B (py_str B v) = Inr dt"
      by (simp add: parse_date_def s_def)
    with assms True Some dt show ?thesis
      by (simp add: rule_date_within_year_def opt_int_or_zero)
  qed
  from True goal show ?thesis
    unfolding F_def s_def by (simp only: not_True_eq_False if_False)
qed


text \<open>
  Scenario F of the spec: \<open>2020-01-01\<close> seen from 2025 with a delta of one year fails. A
  date in the second format, between blanks, is parsed by that format and passes.
\<close>

theorem date_within_year_rule_witness:
  "cr_target date_rule = Some (portal_ref ''d'') \<and>
   resolve_field (portal_ref ''d'') [(''d'', JStr ''2020-01-01'')] [] =
     Inr (JStr ''2020-01-01'', ''portal.d'') \<and>
   strptime ''2020-01-01'' ''%Y-%m-%d'' =
     Some \<lparr> date_year = 2020, date_month = 1, date_day = 1 \<rparr> \<and>
   (\<exists>res. rule_date_within_year plain_builtins 2025 date_rule [(''d'', JStr ''2020-01-01'')] [] =
            Inr res \<and> rr_status res = FAIL) \<and>
   strptime ''1/2/2024'' ''%Y-%m-%d'' = None \<and>
   strptime ''1/2/2024'' ''%d/%m/%Y'' =
     Some \<lparr> date_year = 2024, date_month = 2, date_day = 1 \<rparr> \<and>
   (\<exists>res. rule_date_within_year plain_builtins 2025 date_rule [(''d'', JStr '' 1/2/2024 '')] [] =
            Inr res \<and> rr_status res = PASS)"
  using date_within_year_rule [of date_rule "portal_ref ''d''" "[(''d'', JStr ''2020-01-01'')]"
      "[]" "JStr ''2020-01-01''" "''portal.d''" plain_builtins 2025]
    date_within_year_rule [of date_rule "portal_ref ''d''" "[(''d'', JStr '' 1/2/2024 '')]"
      "[]" "JStr '' 1/2/2024 ''" "''portal.d''" plain_builtins 2025]
    strptime_iso strptime_slash strip_examples
  by (simp add: date_rule_target py_str_def)

text \<open>
  Where the claim as stated fails. The value 0 is present and its string form \<open>0\<close> parses
  under no format, so the claim gives a FAIL with a parse-error message; the code's
  result says that the value is missing.
\<close>

theorem date_within_year_counterexample:
  "resolve_field (portal_ref ''d'') [(''d'', JInt 0)] [] = Inr (JInt 0, ''portal.d'') \<and>
   py_strip (py_str plain_builtins (JInt 0)) = ''0'' \<and>
   strptime ''0'' ''%Y-%m-%d'' = None \<and> strptime ''0'' ''%d/%m/%Y'' = None \<and>
   strptime ''0'' ''%d-%m-%Y'' = None \<and> strptime ''0'' ''%d.%m.%Y'' = None \<and>
   rule_date_within_year plain_builtins 2025 date_rule [(''d'', JInt 0)] [] =
     Inr (result_of date_rule FAIL ''portal.d is missing'' [])"
  using strptime_zero
  by (simp add: date_rule_target str_of_zero strip_examples rule_date_within_year_def)


section \<open>The per-field view\<close>

lemma dict_set_subset: "set (dict_set d k v) \<subseteq> set d \<union> {(k, v)}"
  by (induction d) (auto split: if_splits)

lemma field_results_loop_origin:
  "(k, fr) \<in> set (field_results_loop B rs portal_json by_field) \<Longrightarrow>
     (k, fr) \<in> set by_field \<or> (\<exists>r\<in>set rs. surfaced_from B portal_json r fr)"
proof (induction rs arbitrary: by_field)
  case Nil
  then show ?case by simp
next
  case (Cons r rs)
  show ?case
  proof (cases "startswith (rr_rule_id r) ''PORTAL_FIELD_''")
    case False
    with Cons.prems have "(k, fr) \<in> set (field_results_loop B rs portal_json by_field)" by simp
    from Cons.IH [OF this] show ?thesis by auto
  next
    case True
    show ?thesis
    proof (cases "\<exists>u name. split1 (rr_rule_id r) ''::'' = [u, name]")
      case False
      with True Cons.prems have "(k, fr) \<in> set (field_results_loop B rs portal_json by_field)"
        by (auto split: list.splits)
      from Cons.IH [OF this] show ?thesis by auto
    next
      case yes: True
      then obtain u name where sp: "split1 (rr_rule_id r) ''::'' = [u, name]" by blast
      define new where "new =
        \<lparr> fv_field_name = name,
          fv_value = (if is_none (dict_get portal_json name) then None
                      else Some (py_str B (dict_get portal_json name))),
          fv_is_valid = (rr_status r = PASS),
          fv_failure_reason = (if rr_status r = PASS then None
                               else Some (failure_reason_from_rule_id (rr_rule_id r))) \<rparr>"
      from True sp Cons.prems
      have "(k, fr) \<in> set (field_results_loop B rs portal_json (dict_set by_field name new))"
        by (simp add: new_def Let_def)
      from Cons.IH [OF this]
      consider "(k, fr) \<in> set (dict_set by_field name new)"
        | "\<exists>r\<in>set rs. surfaced_from B portal_json r fr" by blast
      then show ?thesis
      proof cases
        case 1
        with dict_set_subset [of by_field name new]
        have "(k, fr) \<in> set by_field \<or> fr = new" by auto
        moreover have "surfaced_from B portal_json r new"
          using True sp by (simp add: surfaced_from_def new_def)
        ultimately show ?thesis by auto
      next
        case 2
        then show ?thesis by auto
      qed
    qed
  qed
qed

lemma field_results_loop_filter:
  "field_results_loop B (filter (\<lambda>r. startswith (rr_rule_id r) ''PORTAL_FIELD_'') rs) portal_json by_field =
   field_results_loop B rs portal_json by_field"
  by (induction rs arbitrary: by_field) (simp_all split: list.splits)

lemma find_sep_Some:
  assumes "find_sep sep s = Some (a, b)"
  shows "s = a @ sep @ b"
  using assms
proof (induction s arbitrary: a)
  case Nil
  then show ?case by simp
next
  case (Cons c cs)
  show ?case
  proof (cases "startswith (c # cs) sep")
    case True
    with Cons.prems have "a = []" and "b = drop (length sep) (c # cs)" by simp_all
    moreover from True have "take (length sep) (c # cs) = sep" by (simp add: startswith_def)
    ultimately show ?thesis by (metis append_Nil append_take_drop_id)
  next
    case False
    with Cons.prems obtain a' where "find_sep sep cs = Some (a', b)" and "a = c # a'"
      by (auto split: option.splits)
    with Cons.IH show ?thesis by simp
  qed
qed

lemma reason_table:
  "failure_reason_from_rule_id (''PORTAL_FIELD_REQUIRED::'' @ f) = ''MISSING_REQUIRED''"
  "failure_reason_from_rule_id (''PORTAL_FIELD_PATTERN::'' @ f) = ''PATTERN_MISMATCH''"
  "failure_reason_from_rule_id (''PORTAL_FIELD_IN_SET::'' @ f) = ''INVALID_VALUE''"
  "failure_reason_from_rule_id (''PORTAL_FIELD_MIN_LEN::'' @ f) = ''MIN_LENGTH''"
  "failure_reason_from_rule_id (''PORTAL_FIELD_MAX_LEN::'' @ f) = ''MAX_LENGTH''"
  by (simp_all add: failure_reason_from_rule_id_def split1_def startswith_def)


lemma split1_head_cases:
  assumes "(case split1 rule_id ''::'' of [] \<Rightarrow> [] | p # _ \<Rightarrow> p) = P"
  shows "rule_id = P \<or> startswith rule_id (P @ ''::'')"
proof (cases "find_sep ''::'' rule_id")
  case None
  with assms show ?thesis by (simp add: split1_def)
next
  case (Some ab)
  obtain a b where ab: "ab = (a, b)" by (cases ab)
  with Some assms have "a = P" by (simp add: split1_def)
  moreover from Some ab have "rule_id = a @ ''::'' @ b"
    using find_sep_Some [of "''::''" rule_id a b] by simp
  ultimately show ?thesis by (simp add: startswith_def)
qed

lemma reason_generic:
  assumes "\<forall>P\<in>set [''PORTAL_FIELD_REQUIRED'', ''PORTAL_FIELD_PATTERN'', ''PORTAL_FIELD_IN_SET'',
                      ''PORTAL_FIELD_MIN_LEN'', ''PORTAL_FIELD_MAX_LEN''].
             rule_id \<noteq> P \<and> \<not> startswith rule_id (P @ ''::'')"
  shows "failure_reason_from_rule_id rule_id = ''GENERIC_FAIL''"
proof -
  define p where "p = (case split1 rule_id ''::'' of [] \<Rightarrow> [] | p # _ \<Rightarrow> p)"
  from split1_head_cases [OF p_def [symmetric]]
  have "rule_id = p \<or> startswith rule_id (p @ ''::'')" .
  with assms have "p \<notin> set [''PORTAL_FIELD_REQUIRED'', ''PORTAL_FIELD_PATTERN'', ''PORTAL_FIELD_IN_SET'',
                      ''PORTAL_FIELD_MIN_LEN'', ''PORTAL_FIELD_MAX_LEN'']"
    by blast
  then show ?thesis
    unfolding failure_reason_from_rule_id_def p_def [symmetric] Let_def
    by simp
qed

lemma mixed_field_results:
  "portal_report_to_field_results plain_builtins
     \<lparr> summary_status = FAIL,
       results =
         [\<lparr> rr_rule_id = ''PORTAL_FIELD_REQUIRED::email'',
            rr_description = ''email is required'', rr_status = FAIL,
            rr_severity = ''error'',
            rr_message = ''Field '' @ CHR 0x27 # ''email'' @ CHR 0x27 # '' is missing or empty.'',
            rr_context = [] \<rparr>,
          result_of cr_number_rule PASS
            ''Values match for portal.cr_number and moc_certificate.cr_number''
            [(''left'', ''123''), (''right'', '' 123 '')],
          result_of no_target_rule FAIL ''Exception while applying rule: '' []] \<rparr>
     cr_portal =
   [\<lparr> fv_field_name = ''email'', fv_value = None, fv_is_valid = False,
      fv_failure_reason = Some ''MISSING_REQUIRED'' \<rparr>]"
  by (simp add: portal_report_to_field_results_def startswith_def split1_def
        cr_number_rule_def no_target_rule_def bare_rule_def cr_portal_def dict_get_def
        reason_table [of "''email''", simplified])

lemma prefixed_rule_result:
  "\<exists>res. apply_rule_try plain_builtins 2025 prefixed_rule
            [(''country'', JStr ''AE''), (''email'', JStr ''a@b'')] [] = Inr res \<and>
         rr_rule_id res = ''PORTAL_FIELD_COUNTRY::email'' \<and> rr_status res = FAIL"
  by (simp add: apply_rule_try_def rule_in_set_def prefixed_rule_def bare_rule_def portal_ref_def
        resolve_field_def dict_get_def py_str_def)

text \<open>
  What the code does meet. The per-field view depends only on the results whose rule id
  starts with \<open>PORTAL_FIELD_\<close>: dropping all other results from the report changes
  nothing. Every entry of the view is the surfacing of such a result of the report, valid
  with no failure reason for a PASS, and invalid otherwise with the reason mapped from the
  text of the rule id before its first \<open>::\<close>: \<open>PORTAL_FIELD_REQUIRED\<close> to
  \<open>MISSING_REQUIRED\<close>, \<open>PORTAL_FIELD_PATTERN\<close> to \<open>PATTERN_MISMATCH\<close>,
  \<open>PORTAL_FIELD_IN_SET\<close> to \<open>INVALID_VALUE\<close>, \<open>PORTAL_FIELD_MIN_LEN\<close> to \<open>MIN_LENGTH\<close>,
  \<open>PORTAL_FIELD_MAX_LEN\<close> to \<open>MAX_LENGTH\<close>, and anything else to \<open>GENERIC_FAIL\<close>.
\<close>

lemma per_field_view:
  "portal_report_to_field_results B report portal_json =
     portal_report_to_field_results B
       (report \<lparr> results := filter (\<lambda>r. startswith (rr_rule_id r) ''PORTAL_FIELD_'') (results report) \<rparr>)
       portal_json \<and>
   (\<forall>fr\<in>set (portal_report_to_field_results B report portal_json).
      \<exists>r\<in>set (results report). surfaced_from B portal_json r fr) \<and>
   failure_reason_from_rule_id (''PORTAL_FIELD_REQUIRED::'' @ f) = ''MISSING_REQUIRED'' \<and>
   failure_reason_from_rule_id (''PORTAL_FIELD_PATTERN::'' @ f) = ''PATTERN_MISMATCH'' \<and>
   failure_reason_from_rule_id (''PORTAL_FIELD_IN_SET::'' @ f) = ''INVALID_VALUE'' \<and>
   failure_reason_from_rule_id (''PORTAL_FIELD_MIN_LEN::'' @ f) = ''MIN_LENGTH'' \<and>
   failure_reason_from_rule_id (''PORTAL_FIELD_MAX_LEN::'' @ f) = ''MAX_LENGTH'' \<and>
   ((\<forall>P\<in>set [''PORTAL_FIELD_REQUIRED'', ''PORTAL_FIELD_PATTERN'', ''PORTAL_FIELD_IN_SET'',
                ''PORTAL_FIELD_MIN_LEN'', ''PORTAL_FIELD_MAX_LEN''].
        rule_id \<noteq> P \<and> \<not> startswith rule_id (P @ ''::'')) \<longrightarrow>
      failure_reason_from_rule_id rule_id = ''GENERIC_FAIL'')"
proof (intro conjI impI ballI)
  show "portal_report_to_field_results B report portal_json =
     portal_report_to_field_results B
       (report \<lparr> results := filter (\<lambda>r. startswith (rr_rule_id r) ''PORTAL_FIELD_'') (results report) \<rparr>)
       portal_json"
    by (simp add: portal_report_to_field_results_def field_results_loop_filter)
next
  fix fr
  assume "fr \<in> set (portal_report_to_field_results B report portal_json)"
  then obtain k where "(k, fr) \<in> set (field_results_loop B (results report) portal_json [])"
    by (auto simp: portal_report_to_field_results_def)
  from field_results_loop_origin [OF this]
  show "\<exists>r\<in>set (results report). surfaced_from B portal_json r fr" by simp
next
  assume "\<forall>P\<in>set [''PORTAL_FIELD_REQUIRED'', ''PORTAL_FIELD_PATTERN'', ''PORTAL_FIELD_IN_SET'',
                ''PORTAL_FIELD_MIN_LEN'', ''PORTAL_FIELD_MAX_LEN''].
        rule_id \<noteq> P \<and> \<not> startswith rule_id (P @ ''::'')"
  then show "failure_reason_from_rule_id rule_id = ''GENERIC_FAIL''"
    by (rule reason_generic)
qed (rule reason_table)+

text \<open>
  The run of \<open>mixed_config\<close>: of its three results only the portal check of \<open>email\<close> is
  surfaced; the two cross-source results, with ids \<open>R_EQ\<close> and \<open>R_SET\<close>, are not.
\<close>

lemma per_field_view_example:
  "\<exists>report. validate plain_builtins 2025 mixed_config cr_portal cr_docs = Inr report \<and>
      map rr_rule_id (results report) = [''PORTAL_FIELD_REQUIRED::email'', ''R_EQ'', ''R_SET''] \<and>
      portal_report_to_field_results plain_builtins report cr_portal =
        [\<lparr> fv_field_name = ''email'', fv_value = None, fv_is_valid = False,
           fv_failure_reason = Some ''MISSING_REQUIRED'' \<rparr>] \<and>
      (\<exists>r\<in>set (results report).
         surfaced_from plain_builtins cr_portal r
           \<lparr> fv_field_name = ''email'', fv_value = None, fv_is_valid = False,
             fv_failure_reason = Some ''MISSING_REQUIRED'' \<rparr>)"
  using per_field_view [of plain_builtins
      "\<lparr> summary_status = FAIL,
         results =
           [\<lparr> rr_rule_id = ''PORTAL_FIELD_REQUIRED::email'',
              rr_description = ''email is required'', rr_status = FAIL,
              rr_severity = ''error'',
              rr_message = ''Field '' @ CHR 0x27 # ''email'' @ CHR 0x27 # '' is missing or empty.'',
              rr_context = [] \<rparr>,
            result_of cr_number_rule PASS
              ''Values match for portal.cr_number and moc_certificate.cr_number''
              [(''left'', ''123''), (''right'', '' 123 '')],
            result_of no_target_rule FAIL ''Exception while applying rule: '' []] \<rparr>"
      cr_portal "''email''" "''R_EQ''"]
    mixed_report mixed_field_results
  by (simp add: cr_number_rule_def no_target_rule_def bare_rule_def)

text \<open>
  Claim C9. In the per-field view only results whose rule id starts with
  \<open>PORTAL_FIELD_\<close> are surfaced and the results of cross-source rules are excluded, as
  the docstring of \<open>portal_report_to_field_results\<close> says (cross-source rules are ignored
  here) and the comment at its test does (skip cross-source rules; this endpoint is
  portal-only). The code tests the text of the rule id and nothing else, and misses a
  cross-source rule whose configured id has the prefix: with no portal field check
  configured and the one cross-source rule \<open>PORTAL_FIELD_COUNTRY::email\<close>, an \<open>in_set\<close> rule
  on \<open>country\<close>, the rule's FAIL is surfaced as a failure of the field \<open>email\<close>, with
  reason \<open>GENERIC_FAIL\<close>.
\<close>

theorem cross_source_result_surfaced:
  "portal_field_validations prefixed_config = [] \<and>
   cross_source_rules prefixed_config = [prefixed_rule] \<and>
   cr_rule_type prefixed_rule = ''in_set'' \<and>
   validate_portal_fields_for_supplier plain_builtins 2025 prefixed_config ''S1''
     [(''country'', JStr ''AE''), (''email'', JStr ''a@b'')] =
     Inr \<lparr> supplier_id = ''S1'',
           sv_results =
             [\<lparr> fv_field_name = ''email'', fv_value = Some ''a@b'', fv_is_valid = False,
                fv_failure_reason = Some ''GENERIC_FAIL'' \<rparr>] \<rparr>"
proof -
  from prefixed_rule_result obtain res where
    "apply_rule_try plain_builtins 2025 prefixed_rule
            [(''country'', JStr ''AE''), (''email'', JStr ''a@b'')] [] = Inr res"
    and "rr_rule_id res = ''PORTAL_FIELD_COUNTRY::email''" and "rr_status res = FAIL"
    by blast
  then show ?thesis
    by (simp add: validate_portal_fields_for_supplier_def validate_def prefixed_config_def
          apply_rule_cases aggregate_status_def portal_report_to_field_results_def
          startswith_def split1_def dict_get_def py_str_def failure_reason_from_rule_id_def
          prefixed_rule_def bare_rule_def)
qed

end
